theory Spec2Isabelle
  imports Complex_Main "HOL-Library.Log_Nat" "HOL-Library.Word"
begin

section \<open>Binary floating point\<close>

text \<open>
  The controller computes with C++ \<^verbatim>\<open>float\<close> (IEEE 754 binary32) and compares against
  \<^verbatim>\<open>double\<close> (binary64) literals.  A finite floating-point number is the real number it
  denotes, so the model works over \<^typ>\<open>real\<close> and makes every rounding explicit:
  \<^item> a decimal literal of type \<^verbatim>\<open>float\<close> or \<^verbatim>\<open>double\<close> denotes the nearest binary32 or
    binary64 number (\<open>f32 d\<close>, \<open>f64 d\<close>); integer-valued literals such as \<^verbatim>\<open>100.0f\<close> are
    exactly representable and written as they are;
  \<^item> every \<^verbatim>\<open>float\<close> operation returns the exact result rounded to binary32
    (round to nearest, ties to even; one rounding per operation);
  \<^item> comparisons are exact.
  Gradual underflow is part of the rounding function.  Overflow to infinity is not
  represented.  NaN is not a real number: the definitions over \<^typ>\<open>real\<close> cover the runs
  whose values are numbers, and the section on NaN below repeats the regulator, the
  limiting statements and the CAN conversions for values that may be NaN.
\<close>

text \<open>Round to the nearest integer, ties to the even one.\<close>

definition rne :: "real \<Rightarrow> int" where
  "rne x = (let n = \<lfloor>x\<rfloor>; r = x - of_int n in
     if r < 1 / 2 then n else if 1 / 2 < r then n + 1 else if even n then n else n + 1)"

text \<open>
  Rounding to a binary format with \<open>p\<close> significand bits whose smallest positive
  (subnormal) number is \<open>2 ^ - k\<close>.  The magnitude scaled by \<open>2 ^ k\<close> has bit length
  \<open>floorlog 2 \<dots>\<close>; with at most \<open>p\<close> bits the number lies in the subnormal range and the
  grid is \<open>2 ^ - k\<close>, otherwise the grid keeps \<open>p\<close> significant bits.
\<close>

definition round_binary :: "nat \<Rightarrow> nat \<Rightarrow> real \<Rightarrow> real" where
  "round_binary p k x =
     (let e = max (floorlog 2 (nat \<lfloor>\<bar>x\<bar> * 2 ^ k\<rfloor>)) p
      in of_int (rne (x * 2 ^ (p + k) / 2 ^ e)) * 2 ^ e / 2 ^ (p + k))"

definition f32 :: "real \<Rightarrow> real" where
  "f32 = round_binary 24 149"

definition f64 :: "real \<Rightarrow> real" where
  "f64 = round_binary 53 1074"

definition FLT_MAX :: real where
  "FLT_MAX = (2 ^ 24 - 1) * 2 ^ 104"

definition fadd :: "real \<Rightarrow> real \<Rightarrow> real" where
  "fadd a b = f32 (a + b)"

definition fsub :: "real \<Rightarrow> real \<Rightarrow> real" where
  "fsub a b = f32 (a - b)"

definition fmul :: "real \<Rightarrow> real \<Rightarrow> real" where
  "fmul a b = f32 (a * b)"

definition fdiv :: "real \<Rightarrow> real \<Rightarrow> real" where
  "fdiv a b = f32 (a / b)"

text \<open>
  \<^verbatim>\<open>static_cast<unsigned char>(x)\<close> for a \<^verbatim>\<open>float\<close> \<open>x\<close>: the fractional part is discarded
  (truncation toward zero); the behaviour is undefined when the truncated value does not
  fit the destination type, which is \<open>None\<close> here.
\<close>

definition truncate_toward_zero :: "real \<Rightarrow> int" where
  "truncate_toward_zero x = (if 0 \<le> x then \<lfloor>x\<rfloor> else \<lceil>x\<rceil>)"

definition uchar_of_float :: "real \<Rightarrow> 8 word option" where
  "uchar_of_float x =
     (let t = truncate_toward_zero x
      in if 0 \<le> t \<and> t \<le> 255 then Some (word_of_int t) else None)"


section \<open>PID controller\<close>

text \<open>\<^verbatim>\<open>class PIDController\<close>: three gains and the two state variables.\<close>

record PIDController =
  Kp :: real
  Ki :: real
  Kd :: real
  prevError :: real
  integral :: real

text \<open>The constructor \<^verbatim>\<open>PIDController(p, i, d)\<close>.\<close>

definition PIDController_new :: "real \<Rightarrow> real \<Rightarrow> real \<Rightarrow> PIDController" where
  "PIDController_new p i d = \<lparr>Kp = p, Ki = i, Kd = d, prevError = 0, integral = 0\<rparr>"

text \<open>
  \<^verbatim>\<open>PIDController::compute\<close>: returns the output together with the updated object.
\<close>

definition compute :: "PIDController \<Rightarrow> real \<Rightarrow> real \<Rightarrow> real \<times> PIDController" where
  "compute c setpoint measuredValue =
     (let error = fsub setpoint measuredValue;
          integral' = fadd (integral c) error;
          derivative = fsub error (prevError c);
          c' = c\<lparr>integral := integral', prevError := error\<rparr>
      in (fadd (fadd (fmul (Kp c) error) (fmul (Ki c) integral')) (fmul (Kd c) derivative), c'))"

text \<open>
  The recurrence as the specification words it, over a given addition, subtraction and
  multiplication: \<open>(output, previous_error, integral)\<close> from the gains, the old state,
  the setpoint and the measurement.
\<close>

definition pid_recurrence ::
  "(real \<Rightarrow> real \<Rightarrow> real) \<Rightarrow> (real \<Rightarrow> real \<Rightarrow> real) \<Rightarrow> (real \<Rightarrow> real \<Rightarrow> real) \<Rightarrow>
   real \<times> real \<times> real \<Rightarrow> real \<times> real \<Rightarrow> real \<Rightarrow> real \<Rightarrow> real \<times> real \<times> real" where
  "pid_recurrence add sub mul gains st setpoint measured =
     (case gains of (kp, ki, kd) \<Rightarrow>
      case st of (previous_error, accumulated) \<Rightarrow>
        let error = sub setpoint measured;
            accumulated' = add accumulated error;
            derivative = sub error previous_error
        in (add (add (mul kp error) (mul ki accumulated')) (mul kd derivative),
            error, accumulated'))"


section \<open>Temperature sensor curve\<close>

text \<open>
  \<^verbatim>\<open>interpolateTemperature\<close>: the \<^verbatim>\<open>float\<close> argument is promoted to \<^verbatim>\<open>double\<close> (exactly)
  and compared with \<^verbatim>\<open>double\<close> literals; the returned literals are integers.
\<close>

definition interpolateTemperature :: "real \<Rightarrow> real" where
  "interpolateTemperature voltage =
     (if f64 4.771 \<le> voltage then - 20
      else if f64 4.642 \<le> voltage then - 10
      else if f64 4.438 \<le> voltage then 0
      else if f64 4.141 \<le> voltage then 10
      else if f64 3.751 \<le> voltage then 20
      else if f64 3.325 \<le> voltage then 30
      else if f64 2.838 \<le> voltage then 40
      else if f64 2.500 \<le> voltage then 50
      else if f64 1.915 \<le> voltage then 60
      else if f64 1.212 \<le> voltage then 80
      else if f64 0.749 \<le> voltage then 100
      else 120)"

text \<open>
  The step table with the decimal breakpoints as the specification lists them
  (highest breakpoint first, fallback 120).
\<close>

definition breakpoints :: "(real \<times> real) list" where
  "breakpoints =
     [(4.771, - 20), (4.642, - 10), (4.438, 0), (4.141, 10), (3.751, 20), (3.325, 30),
      (2.838, 40), (2.500, 50), (1.915, 60), (1.212, 80), (0.749, 100)]"

fun step_table :: "(real \<times> real) list \<Rightarrow> real \<Rightarrow> real" where
  "step_table [] v = 120"
| "step_table ((b, t) # bs) v = (if b \<le> v then t else step_table bs v)"


section \<open>Outputs\<close>

text \<open>
  Everything the program writes to the console is an event of the trace: the actuator
  commands (\<^verbatim>\<open>controlPump\<close>, \<^verbatim>\<open>controlFan\<close>), the CAN message and the status and error
  messages.
\<close>

datatype SystemState = OFF | ON | SAFETY_SHUTDOWN

record can_frame =
  CANID :: "32 word"
  msg :: "8 word list"

datatype message =
    Initializing
  | System_ON
  | System_remains_OFF
  | Low_coolant_level
  | Overtemperature
  | Entering_safety_shutdown
  | In_safety_shutdown
  | Status real real real
  | Error_parsing_arguments

datatype event =
    Pump real
  | Fan real
  | CAN can_frame
  | Console message

definition controlPump :: "real \<Rightarrow> event list" where
  "controlPump speed = [Pump speed]"

definition controlFan :: "real \<Rightarrow> event list" where
  "controlFan speed = [Fan speed]"

definition safetyShutdown :: "SystemState \<Rightarrow> SystemState \<times> event list" where
  "safetyShutdown state = (SAFETY_SHUTDOWN, [Console Entering_safety_shutdown])"

text \<open>
  \<^verbatim>\<open>CANcontrol\<close>: the message it prints, or \<open>None\<close> when a conversion to
  \<^verbatim>\<open>unsigned char\<close> is undefined.  In \<^verbatim>\<open>pumpSpeed / 100 * 255\<close> both integer constants are
  converted to \<^verbatim>\<open>float\<close> and both operations are \<^verbatim>\<open>float\<close> operations.
\<close>

definition CANcontrol :: "real \<Rightarrow> real \<Rightarrow> can_frame option" where
  "CANcontrol pumpSpeed fanSpeed =
     (case uchar_of_float (fmul (fdiv pumpSpeed 100) 255) of
        None \<Rightarrow> None
      | Some b2 \<Rightarrow>
         (case uchar_of_float (fmul (fdiv fanSpeed 100) 255) of
            None \<Rightarrow> None
          | Some b6 \<Rightarrow> Some \<lparr>CANID = 0x18FF408F, msg = (replicate 8 0)[2 := b2, 6 := b6]\<rparr>))"


section \<open>The control loop of \<^verbatim>\<open>main\<close>\<close>

text \<open>The local variables of \<^verbatim>\<open>main\<close> that the loop reads and writes.\<close>

record ctrl =
  tempSetpoint :: real
  safetyThreshold :: real
  pumpPID :: PIDController
  fanPID :: PIDController
  ignitionSwitch :: bool
  sensorVoltage :: real
  levelSwitch :: bool
  measuredTemperature :: real
  pumpSpeed :: real
  fanSpeed :: real
  currentState :: SystemState

text \<open>The state on entry to the loop, for a given setpoint and safety threshold.\<close>

definition initial :: "real \<Rightarrow> real \<Rightarrow> ctrl" where
  "initial setpoint threshold =
     \<lparr>tempSetpoint = setpoint, safetyThreshold = threshold,
      pumpPID = PIDController_new (f32 0.5) (f32 0.1) (f32 0.05),
      fanPID = PIDController_new (f32 0.4) (f32 0.1) (f32 0.03),
      ignitionSwitch = False, sensorVoltage = 0, levelSwitch = True,
      measuredTemperature = 0, pumpSpeed = 0, fanSpeed = 0, currentState = OFF\<rparr>"

text \<open>
  The two statements \<^verbatim>\<open>if (x < 0.0f) x = 0.0f; if (x > 100.0f) x = 100.0f;\<close> that
  \<^verbatim>\<open>main\<close> applies to each regulator output.
\<close>

definition limit_speed :: "real \<Rightarrow> real" where
  "limit_speed x = (let y = (if x < 0 then 0 else x) in if 100 < y then 100 else y)"

text \<open>\<^verbatim>\<open>case SystemState::OFF\<close>: the emulated ignition switch toggles.\<close>

definition case_OFF :: "ctrl \<Rightarrow> ctrl \<times> event list" where
  "case_OFF s =
     (let s1 = s\<lparr>ignitionSwitch := \<not> ignitionSwitch s\<rparr>
      in if ignitionSwitch s1 then (s1\<lparr>currentState := ON\<rparr>, [Console System_ON])
         else (s1, [Console System_remains_OFF]))"

text \<open>
  \<^verbatim>\<open>case SystemState::ON\<close>, first two statements: the emulated voltage
  \<^verbatim>\<open>1.0f + static_cast<float>(rand() % 3)\<close>, where \<open>r\<close> is the value \<^verbatim>\<open>rand()\<close> returns, and
  the temperature read from the curve.
\<close>

definition acquire :: "nat \<Rightarrow> ctrl \<Rightarrow> ctrl" where
  "acquire r s =
     (let v = fadd 1 (real (r mod 3))
      in s\<lparr>sensorVoltage := v, measuredTemperature := interpolateTemperature v\<rparr>)"

text \<open>
  \<^verbatim>\<open>case SystemState::ON\<close>, the rest: coolant-level check, regulation, limiting, actuation,
  overtemperature check, status display.
\<close>

definition regulate :: "ctrl \<Rightarrow> ctrl \<times> event list" where
  "regulate s =
     (if \<not> levelSwitch s then
        (case safetyShutdown (currentState s) of (st, out) \<Rightarrow>
           (s\<lparr>currentState := st\<rparr>,
            [Console Low_coolant_level] @ controlPump 0 @ controlFan 0 @ out))
      else
        (case compute (pumpPID s) (tempSetpoint s) (measuredTemperature s) of (pumpOut, pump') \<Rightarrow>
         case compute (fanPID s) (tempSetpoint s) (measuredTemperature s) of (fanOut, fan') \<Rightarrow>
           let s1 = s\<lparr>pumpPID := pump', fanPID := fan',
                      pumpSpeed := limit_speed pumpOut, fanSpeed := limit_speed fanOut\<rparr>;
               applied = controlPump (pumpSpeed s1) @ controlFan (fanSpeed s1)
           in if safetyThreshold s1 < measuredTemperature s1 then
                (case safetyShutdown (currentState s1) of (st, out) \<Rightarrow>
                   (s1\<lparr>currentState := st\<rparr>,
                    applied @ [Console Overtemperature] @ controlPump 0 @ controlFan 0 @ out))
              else
                (s1, applied @
                     [Console (Status (measuredTemperature s1) (pumpSpeed s1) (fanSpeed s1))])))"

text \<open>
  The outcome of one loop iteration: the loop goes on with a new state, \<^verbatim>\<open>main\<close> returns, or
  the behaviour is undefined.  Each outcome carries the events of the iteration.
\<close>

datatype step =
    Continue ctrl "event list"
  | Return int "event list"
  | Undefined_behaviour "event list"

text \<open>After the \<^verbatim>\<open>switch\<close>: the delay (not modelled) and the CAN message.\<close>

definition end_of_iteration :: "ctrl \<times> event list \<Rightarrow> step" where
  "end_of_iteration r =
     (case r of (s, out) \<Rightarrow>
        (case CANcontrol (pumpSpeed s) (fanSpeed s) of
           None \<Rightarrow> Undefined_behaviour out
         | Some frame \<Rightarrow> Continue s (out @ [CAN frame])))"

text \<open>One iteration of \<^verbatim>\<open>while (true)\<close>; \<open>r\<close> is what \<^verbatim>\<open>rand()\<close> returns if it is called.\<close>

definition loop_iteration :: "nat \<Rightarrow> ctrl \<Rightarrow> step" where
  "loop_iteration r s =
     (case currentState s of
        OFF \<Rightarrow> end_of_iteration (case_OFF s)
      | ON \<Rightarrow> end_of_iteration (regulate (acquire r s))
      | SAFETY_SHUTDOWN \<Rightarrow> Return 0 [Console In_safety_shutdown])"

text \<open>
  The \<^verbatim>\<open>ON\<close> iteration entered with a given measured temperature instead of the emulated
  reading: the same statements after the temperature has been assigned.
\<close>

definition ON_iteration_at :: "real \<Rightarrow> ctrl \<Rightarrow> step" where
  "ON_iteration_at t s = end_of_iteration (regulate (s\<lparr>measuredTemperature := t\<rparr>))"

definition prepend :: "event list \<Rightarrow> step \<Rightarrow> step" where
  "prepend out r =
     (case r of
        Continue s out' \<Rightarrow> Continue s (out @ out')
      | Return c out' \<Rightarrow> Return c (out @ out')
      | Undefined_behaviour out' \<Rightarrow> Undefined_behaviour (out @ out'))"

text \<open>
  The loop over the first \<open>length rs\<close> iterations, \<open>rs\<close> being the successive values of
  \<^verbatim>\<open>rand()\<close>.  Once \<^verbatim>\<open>main\<close> has returned nothing more happens.
\<close>

fun run :: "nat list \<Rightarrow> ctrl \<Rightarrow> step" where
  "run [] s = Continue s []"
| "run (r # rs) s =
     (case loop_iteration r s of
        Continue s' out \<Rightarrow> prepend out (run rs s')
      | Return c out \<Rightarrow> Return c out
      | Undefined_behaviour out \<Rightarrow> Undefined_behaviour out)"

primrec events :: "step \<Rightarrow> event list" where
  "events (Continue s out) = out"
| "events (Return c out) = out"
| "events (Undefined_behaviour out) = out"

primrec is_CAN :: "event \<Rightarrow> bool" where
  "is_CAN (Pump x) = False"
| "is_CAN (Fan x) = False"
| "is_CAN (CAN f) = True"
| "is_CAN (Console m) = False"

primrec is_actuation :: "event \<Rightarrow> bool" where
  "is_actuation (Pump x) = True"
| "is_actuation (Fan x) = True"
| "is_actuation (CAN f) = False"
| "is_actuation (Console m) = False"

text \<open>Whether every speed an event hands to an actuator lies in \<open>[0, 100]\<close>.\<close>

primrec speed_in_range :: "event \<Rightarrow> bool" where
  "speed_in_range (Pump x) = (0 \<le> x \<and> x \<le> 100)"
| "speed_in_range (Fan x) = (0 \<le> x \<and> x \<le> 100)"
| "speed_in_range (CAN f) = True"
| "speed_in_range (Console m) = True"


text \<open>Whether the stored speeds, which are what the CAN encoder receives, lie in \<open>[0, 100]\<close>.\<close>

definition speeds_in_range :: "ctrl \<Rightarrow> bool" where
  "speeds_in_range s =
     (0 \<le> pumpSpeed s \<and> pumpSpeed s \<le> 100 \<and> 0 \<le> fanSpeed s \<and> fanSpeed s \<le> 100)"


text \<open>
  The state after the first iteration from \<open>initial\<close>: the emulated ignition switch has
  toggled to true and the state is \<open>ON\<close>.
\<close>

definition started :: "real \<Rightarrow> real \<Rightarrow> ctrl" where
  "started setpoint threshold =
     (initial setpoint threshold)\<lparr>ignitionSwitch := True, currentState := ON\<rparr>"


text \<open>
  Neither regulator can ask for cooling at a reading with error \<open>e\<close>: gains and accumulated
  error have the signs that make every term of the output non-positive.
\<close>

definition no_demand :: "real \<Rightarrow> ctrl \<Rightarrow> bool" where
  "no_demand e s =
     (0 \<le> Kp (pumpPID s) \<and> 0 \<le> Ki (pumpPID s) \<and> 0 \<le> Kd (pumpPID s) \<and>
      integral (pumpPID s) \<le> 0 \<and> e \<le> prevError (pumpPID s) \<and>
      0 \<le> Kp (fanPID s) \<and> 0 \<le> Ki (fanPID s) \<and> 0 \<le> Kd (fanPID s) \<and>
      integral (fanPID s) \<le> 0 \<and> e \<le> prevError (fanPID s))"


section \<open>Command-line arguments\<close>

text \<open>
  \<^verbatim>\<open>std::stof\<close> belongs to the C++ standard library.  The model covers plain decimal
  numerals: optional white space, an optional sign, digits with an optional fraction; the
  conversion stops at the first character that cannot continue the numeral and ignores
  the rest of the string.  It throws \<^verbatim>\<open>std::invalid_argument\<close> when no digits were found
  and \<^verbatim>\<open>std::out_of_range\<close> when the value exceeds the range of \<^verbatim>\<open>float\<close>.  Exponents,
  hexadecimal numerals, \<^verbatim>\<open>inf\<close>, \<^verbatim>\<open>nan\<close> and values below the normal range are outside the
  model (\<open>Not_modelled\<close>).
\<close>

datatype stof_result = Converted real | Invalid_argument | Out_of_range | Not_modelled

definition isspace :: "char \<Rightarrow> bool" where
  "isspace c = (c = CHR '' '' \<or> (9 \<le> (of_char c :: nat) \<and> (of_char c :: nat) \<le> 13))"

definition isdigit :: "char \<Rightarrow> bool" where
  "isdigit c = (48 \<le> (of_char c :: nat) \<and> (of_char c :: nat) \<le> 57)"

definition digits_value :: "string \<Rightarrow> nat" where
  "digits_value ds = foldl (\<lambda>n c. 10 * n + (of_char c - 48)) 0 ds"

definition starts_with_one_of :: "string \<Rightarrow> string \<Rightarrow> bool" where
  "starts_with_one_of cs s = (case s of [] \<Rightarrow> False | c # _ \<Rightarrow> c \<in> set cs)"

definition stof :: "string \<Rightarrow> stof_result" where
  "stof str =
     (let s1 = dropWhile isspace str;
          negative = starts_with_one_of ''-'' s1;
          s2 = (if starts_with_one_of ''+-'' s1 then tl s1 else s1);
          ip = takeWhile isdigit s2;
          r1 = dropWhile isdigit s2;
          has_point = starts_with_one_of ''.'' r1;
          fp = (if has_point then takeWhile isdigit (tl r1) else []);
          r2 = (if has_point then dropWhile isdigit (tl r1) else r1)
      in if ip = [] \<and> fp = [] then
           (if starts_with_one_of ''iInN'' s2 then Not_modelled else Invalid_argument)
         else if starts_with_one_of ''eE'' r2 then Not_modelled
         else if ip = ''0'' \<and> starts_with_one_of ''xX'' r1 then Not_modelled
         else
           let magnitude = real (digits_value ip) + real (digits_value fp) / 10 ^ length fp;
               v = f32 (if negative then - magnitude else magnitude)
           in if FLT_MAX < \<bar>v\<bar> then Out_of_range
              else if 0 < magnitude \<and> magnitude < 1 / 2 ^ 126 then Not_modelled
              else Converted v)"

text \<open>
  The argument handling at the start of \<^verbatim>\<open>main\<close>: \<open>argv\<close> includes the program name, so
  \<open>argc = length argv\<close>.  Any exception of \<^verbatim>\<open>std::stof\<close> is caught, reported and makes
  \<^verbatim>\<open>main\<close> return 1.
\<close>

datatype configuration = Configured real real | Rejected | Argument_not_modelled

definition parse_arguments :: "string list \<Rightarrow> configuration" where
  "parse_arguments argv =
     (if 1 < length argv then
        (case stof (argv ! 1) of
           Converted setpoint \<Rightarrow>
             (if 2 < length argv then
                (case stof (argv ! 2) of
                   Converted threshold \<Rightarrow> Configured setpoint threshold
                 | Not_modelled \<Rightarrow> Argument_not_modelled
                 | _ \<Rightarrow> Rejected)
              else Configured setpoint 70)
         | Not_modelled \<Rightarrow> Argument_not_modelled
         | _ \<Rightarrow> Rejected)
      else Configured 50 70)"

text \<open>
  \<^verbatim>\<open>main\<close> for the arguments \<open>argv\<close> over the first \<open>length rs\<close> loop iterations; \<open>None\<close> when
  an argument is outside the modelled part of \<^verbatim>\<open>std::stof\<close>.
\<close>

definition main :: "string list \<Rightarrow> nat list \<Rightarrow> step option" where
  "main argv rs =
     (case parse_arguments argv of
        Configured setpoint threshold \<Rightarrow>
          Some (prepend [Console Initializing] (run rs (initial setpoint threshold)))
      | Rejected \<Rightarrow> Some (Return 1 [Console Error_parsing_arguments])
      | Argument_not_modelled \<Rightarrow> None)"


section \<open>NaN\<close>

text \<open>
  A \<^verbatim>\<open>float\<close> variable holds a number or NaN.  Every arithmetic operation with a NaN operand
  returns NaN, and every comparison with a NaN operand is false.  The definitions of this
  section are \<^verbatim>\<open>PIDController\<close>, \<^verbatim>\<open>compute\<close>, the two limiting statements of \<^verbatim>\<open>main\<close> and
  \<^verbatim>\<open>CANcontrol\<close> once more, statement by statement, over values that may be NaN; on numbers
  they are the definitions above.  Infinities are not represented.
\<close>

datatype float_value = Number real | NaN

definition nan_lift :: "(real \<Rightarrow> real \<Rightarrow> real) \<Rightarrow> float_value \<Rightarrow> float_value \<Rightarrow> float_value" where
  "nan_lift f a b =
     (case a of
        NaN \<Rightarrow> NaN
      | Number x \<Rightarrow> (case b of NaN \<Rightarrow> NaN | Number y \<Rightarrow> Number (f x y)))"

definition nan_less :: "float_value \<Rightarrow> float_value \<Rightarrow> bool" where
  "nan_less a b =
     (case a of
        NaN \<Rightarrow> False
      | Number x \<Rightarrow> (case b of NaN \<Rightarrow> False | Number y \<Rightarrow> x < y))"

record PIDController_nan =
  Kp_nan :: float_value
  Ki_nan :: float_value
  Kd_nan :: float_value
  prevError_nan :: float_value
  integral_nan :: float_value

text \<open>A controller whose fields are all numbers.\<close>

definition numbers :: "PIDController \<Rightarrow> PIDController_nan" where
  "numbers c =
     \<lparr>Kp_nan = Number (Kp c), Ki_nan = Number (Ki c), Kd_nan = Number (Kd c),
      prevError_nan = Number (prevError c), integral_nan = Number (integral c)\<rparr>"

text \<open>\<^verbatim>\<open>PIDController::compute\<close>.\<close>

definition compute_nan ::
  "PIDController_nan \<Rightarrow> float_value \<Rightarrow> float_value \<Rightarrow> float_value \<times> PIDController_nan" where
  "compute_nan c setpoint measuredValue =
     (let error = nan_lift fsub setpoint measuredValue;
          integral' = nan_lift fadd (integral_nan c) error;
          derivative = nan_lift fsub error (prevError_nan c);
          c' = c\<lparr>integral_nan := integral', prevError_nan := error\<rparr>
      in (nan_lift fadd
            (nan_lift fadd (nan_lift fmul (Kp_nan c) error) (nan_lift fmul (Ki_nan c) integral'))
            (nan_lift fmul (Kd_nan c) derivative), c'))"

text \<open>
  The two statements \<^verbatim>\<open>if (x < 0.0f) x = 0.0f; if (x > 100.0f) x = 100.0f;\<close> under the
  comment \<^verbatim>\<open>Outputs to valid ranges (0-100%)\<close>.
\<close>

definition limit_speed_nan :: "float_value \<Rightarrow> float_value" where
  "limit_speed_nan x =
     (let y = (if nan_less x (Number 0) then Number 0 else x)
      in if nan_less (Number 100) y then Number 100 else y)"

text \<open>
  The values of \<^verbatim>\<open>pumpSpeed\<close> and \<^verbatim>\<open>fanSpeed\<close> after the regulators have run and the
  outputs have been limited: what \<^verbatim>\<open>main\<close> passes to \<^verbatim>\<open>controlPump\<close> and \<^verbatim>\<open>controlFan\<close>, keeps
  in the two variables and passes to \<^verbatim>\<open>CANcontrol\<close> at the end of the iteration.
\<close>

definition applied_speeds_nan ::
  "PIDController_nan \<Rightarrow> PIDController_nan \<Rightarrow> float_value \<Rightarrow> float_value \<Rightarrow>
   float_value \<times> float_value" where
  "applied_speeds_nan pump fan setpoint measured =
     (limit_speed_nan (fst (compute_nan pump setpoint measured)),
      limit_speed_nan (fst (compute_nan fan setpoint measured)))"

text \<open>The conversion of NaN to \<^verbatim>\<open>unsigned char\<close> is undefined.\<close>

definition uchar_of_float_nan :: "float_value \<Rightarrow> 8 word option" where
  "uchar_of_float_nan x = (case x of NaN \<Rightarrow> None | Number r \<Rightarrow> uchar_of_float r)"

definition CANcontrol_nan :: "float_value \<Rightarrow> float_value \<Rightarrow> can_frame option" where
  "CANcontrol_nan pump_speed fan_speed =
     (case uchar_of_float_nan
             (nan_lift fmul (nan_lift fdiv pump_speed (Number 100)) (Number 255)) of
        None \<Rightarrow> None
      | Some b2 \<Rightarrow>
         (case uchar_of_float_nan
                 (nan_lift fmul (nan_lift fdiv fan_speed (Number 100)) (Number 255)) of
            None \<Rightarrow> None
          | Some b6 \<Rightarrow> Some \<lparr>CANID = 0x18FF408F, msg = (replicate 8 0)[2 := b2, 6 := b6]\<rparr>))"

text \<open>
  The arguments that \<^verbatim>\<open>std::stof\<close> converts to NaN without throwing: after optional white
  space and an optional sign, the letters \<^verbatim>\<open>nan\<close> in either case; what follows them is
  part of the NaN or ignored.
\<close>

definition stof_returns_NaN :: "string \<Rightarrow> bool" where
  "stof_returns_NaN str =
     (let s1 = dropWhile isspace str;
          s2 = (if starts_with_one_of ''+-'' s1 then tl s1 else s1)
      in list_all2 (\<lambda>c cs. c \<in> set cs) (take 3 s2) [''nN'', ''aA'', ''nN''])"


section \<open>Properties of the rounding functions\<close>

lemma rne_of_int: "rne (of_int n) = n"
  by (simp add: rne_def)

lemma rne_mono: "x \<le> y \<Longrightarrow> rne x \<le> rne y"
proof -
  assume xy: "x \<le> y"
  have lo: "\<lfloor>z\<rfloor> \<le> rne z" and hi: "rne z \<le> \<lfloor>z\<rfloor> + 1" for z
    by (simp_all add: rne_def Let_def)
  have fl: "\<lfloor>x\<rfloor> \<le> \<lfloor>y\<rfloor>" using xy by (rule floor_mono)
  show ?thesis
  proof (cases "\<lfloor>x\<rfloor> = \<lfloor>y\<rfloor>")
    case True
    with xy show ?thesis by (auto simp: rne_def Let_def)
  next
    case False
    with fl have "\<lfloor>x\<rfloor> + 1 \<le> \<lfloor>y\<rfloor>" by simp
    with hi[of x] lo[of y] show ?thesis by linarith
  qed
qed

lemma floorlog2_upper: "n < 2 ^ floorlog 2 n"
proof (cases "n = 0")
  case True then show ?thesis by simp
next
  case False
  then show ?thesis using floorlog_bounds[of n 2] by simp
qed

lemma floorlog2_lower: "0 < n \<Longrightarrow> 2 ^ (floorlog 2 n - 1) \<le> n"
  using floorlog_bounds[of n 2] by simp

lemma floorlog2_eq: "2 ^ m \<le> n \<Longrightarrow> n < 2 ^ Suc m \<Longrightarrow> floorlog 2 n = Suc m"
proof -
  assume lo: "2 ^ m \<le> n" and hi: "n < 2 ^ Suc m"
  have pos: "0 < n" using lo by (metis less_le_trans zero_less_numeral zero_less_power)
  let ?f = "floorlog 2 n"
  have a: "(2::nat) ^ (?f - 1) \<le> n" using floorlog2_lower[OF pos] .
  have b: "n < (2::nat) ^ ?f" by (rule floorlog2_upper)
  from lo b have "(2::nat) ^ m < 2 ^ ?f" by (rule le_less_trans)
  then have 1: "m < ?f" by (simp only: power_strict_increasing_iff one_less_numeral_iff semiring_norm)
  from a hi have "(2::nat) ^ (?f - 1) < 2 ^ Suc m" by (rule le_less_trans)
  then have 2: "?f - 1 < Suc m" by (simp only: power_strict_increasing_iff one_less_numeral_iff semiring_norm)
  from 1 2 show ?thesis by simp
qed

lemma round_binary_mono:
  assumes "0 \<le> x" "x \<le> y" "0 < p"
  shows "round_binary p k x \<le> round_binary p k y"
proof -
  define B where "B z = floorlog 2 (nat \<lfloor>\<bar>z\<bar> * 2 ^ k\<rfloor>)" for z :: real
  define E where "E z = max (B z) p" for z
  have rb: "round_binary p k z = of_int (rne (z * 2 ^ (p + k) / 2 ^ E z)) * 2 ^ E z / 2 ^ (p + k)" for z
    by (simp add: round_binary_def E_def B_def Let_def)
  have y0: "0 \<le> y" using assms by simp
  have "nat \<lfloor>\<bar>x\<bar> * 2 ^ k\<rfloor> \<le> nat \<lfloor>\<bar>y\<bar> * 2 ^ k\<rfloor>"
    using assms by (intro nat_mono floor_mono) (simp add: mult_right_mono)
  then have Bxy: "B x \<le> B y" unfolding B_def by (rule floorlog_mono)
  then have Exy: "E x \<le> E y" by (auto simp: E_def)
  show ?thesis
  proof (cases "E x = E y")
    case True
    have "x * 2 ^ (p + k) / 2 ^ E y \<le> y * 2 ^ (p + k) / 2 ^ E y"
      using assms by (simp add: divide_right_mono mult_right_mono)
    then have "rne (x * 2 ^ (p + k) / 2 ^ E y) \<le> rne (y * 2 ^ (p + k) / 2 ^ E y)"
      by (rule rne_mono)
    then have "real_of_int (rne (x * 2 ^ (p + k) / 2 ^ E y)) \<le> real_of_int (rne (y * 2 ^ (p + k) / 2 ^ E y))"
      by simp
    then show ?thesis unfolding rb True
      by (simp add: divide_right_mono mult_right_mono)
  next
    case False
    with Exy have lt: "E x < E y" by simp
    then have EyB: "E y = B y" and Byp: "p < B y" by (auto simp: E_def max_def split: if_splits)
    \<comment> \<open>upper bound for x\<close>
    have absx: "\<bar>x\<bar> = x" using assms by simp
    have "Suc (nat \<lfloor>\<bar>x\<bar> * 2 ^ k\<rfloor>) \<le> 2 ^ B x"
      unfolding B_def using floorlog2_upper[of "nat \<lfloor>\<bar>x\<bar> * 2 ^ k\<rfloor>"] by (rule Suc_leI)
    then have nx: "Suc (nat \<lfloor>x * 2 ^ k\<rfloor>) \<le> 2 ^ B x" unfolding absx .
    have "x * 2 ^ k < of_int \<lfloor>x * 2 ^ k\<rfloor> + 1" by linarith
    also have "\<dots> = real (Suc (nat \<lfloor>x * 2 ^ k\<rfloor>))" using assms by simp
    also have "\<dots> \<le> real (2 ^ B x)" using nx by (simp only: of_nat_le_iff)
    also have "\<dots> \<le> 2 ^ E x" by (simp add: E_def)
    finally have xs: "x * 2 ^ k < 2 ^ E x" .
    have "x * 2 ^ (p + k) / 2 ^ E x \<le> 2 ^ p"
      using xs by (simp add: power_add field_simps)
    then have "x * 2 ^ (p + k) / 2 ^ E x \<le> real_of_int (2 ^ p)" by simp
    then have "rne (x * 2 ^ (p + k) / 2 ^ E x) \<le> rne (of_int (2 ^ p))"
      by (rule rne_mono)
    then have "real_of_int (rne (x * 2 ^ (p + k) / 2 ^ E x)) \<le> real_of_int (2 ^ p)"
      unfolding rne_of_int by (simp only: of_int_le_iff)
    then have "real_of_int (rne (x * 2 ^ (p + k) / 2 ^ E x)) \<le> 2 ^ p" by simp
    then have ux: "round_binary p k x \<le> 2 ^ E x / 2 ^ k"
      unfolding rb by (simp add: power_add field_simps)
    \<comment> \<open>lower bound for y\<close>
    obtain q where p: "p = Suc q" using assms(3) by (cases p) auto
    obtain m where Ey: "E y = Suc m" using lt by (cases "E y") auto
    have Bym: "B y = Suc m" using EyB Ey by simp
    have ny: "0 < nat \<lfloor>\<bar>y\<bar> * 2 ^ k\<rfloor>"
      using Bym unfolding B_def by (cases "nat \<lfloor>\<bar>y\<bar> * 2 ^ k\<rfloor> = 0") (auto simp: floorlog_def)
    have "(2::nat) ^ m \<le> nat \<lfloor>\<bar>y\<bar> * 2 ^ k\<rfloor>"
      using floorlog2_lower[OF ny] Bym unfolding B_def by simp
    then have "real (2 ^ m) \<le> real (nat \<lfloor>\<bar>y\<bar> * 2 ^ k\<rfloor>)"
      by (simp only: of_nat_le_iff)
    also have "\<dots> \<le> y * 2 ^ k" using y0 by (simp add: abs_of_nonneg)
    finally have ys: "2 ^ m \<le> y * 2 ^ k" by simp
    have "2 ^ m * 2 ^ q \<le> (y * 2 ^ k) * 2 ^ q"
      using ys by (intro mult_right_mono) simp_all
    then have "2 ^ q \<le> (y * 2 ^ k) * 2 ^ q / 2 ^ m"
      by (simp add: pos_le_divide_eq mult.commute)
    also have "(y * 2 ^ k) * 2 ^ q / 2 ^ m = y * 2 ^ (p + k) / 2 ^ E y"
      unfolding p Ey by (simp add: power_add)
    finally have "real_of_int (2 ^ q) \<le> y * 2 ^ (p + k) / 2 ^ E y" by simp
    then have "rne (of_int (2 ^ q)) \<le> rne (y * 2 ^ (p + k) / 2 ^ E y)"
      by (rule rne_mono)
    then have "real_of_int (2 ^ q) \<le> real_of_int (rne (y * 2 ^ (p + k) / 2 ^ E y))"
      unfolding rne_of_int by (simp only: of_int_le_iff)
    then have "2 ^ q \<le> real_of_int (rne (y * 2 ^ (p + k) / 2 ^ E y))" by simp
    then have "2 ^ q * 2 ^ E y / 2 ^ (p + k) \<le> round_binary p k y"
      unfolding rb by (simp add: divide_right_mono mult_right_mono)
    moreover have "(2::real) ^ q * 2 ^ E y / 2 ^ (p + k) = 2 ^ m / 2 ^ k"
      unfolding p Ey by (simp add: power_add)
    ultimately have ly: "2 ^ m / 2 ^ k \<le> round_binary p k y" by simp
    have "E x \<le> m" using lt Ey by simp
    then have "(2::real) ^ E x \<le> 2 ^ m" by (intro power_increasing) simp_all
    then have "(2::real) ^ E x / 2 ^ k \<le> 2 ^ m / 2 ^ k" by (simp add: divide_right_mono)
    with ux ly show ?thesis by linarith
  qed
qed

lemma round_binary_normal:
  assumes lo: "2 ^ m \<le> \<bar>x\<bar> * 2 ^ k" and hi: "\<bar>x\<bar> * 2 ^ k < 2 ^ Suc m" and p: "p \<le> Suc m"
  shows "round_binary p k x =
         of_int (rne (x * 2 ^ (p + k) / 2 ^ Suc m)) * 2 ^ Suc m / 2 ^ (p + k)"
proof -
  let ?n = "nat \<lfloor>\<bar>x\<bar> * 2 ^ k\<rfloor>"
  have "real_of_int (2 ^ m) \<le> \<bar>x\<bar> * 2 ^ k" using lo by simp
  then have "2 ^ m \<le> \<lfloor>\<bar>x\<bar> * 2 ^ k\<rfloor>" by (simp only: le_floor_iff)
  then have 1: "2 ^ m \<le> ?n" by (simp add: le_nat_iff)
  have "\<bar>x\<bar> * 2 ^ k < real_of_int (2 ^ Suc m)" using hi by simp
  then have "\<lfloor>\<bar>x\<bar> * 2 ^ k\<rfloor> < 2 ^ Suc m" by (simp only: floor_less_iff)
  then have 2: "?n < 2 ^ Suc m" by (simp add: nat_less_iff)
  have "floorlog 2 ?n = Suc m" using 1 2 by (rule floorlog2_eq)
  then show ?thesis using p by (simp add: round_binary_def max_def)
qed

lemmas f64_normal = round_binary_normal[where p = 53 and k = 1074, folded f64_def]
lemmas f32_normal = round_binary_normal[where p = 24 and k = 149, folded f32_def]


lemma f64_4_771: "f64 4.771 = 5371668455546159 / 2 ^ 50"
  by (subst f64_normal[where m = 1076]) (simp_all add: rne_def)
lemma f64_4_642: "f64 4.642 = 5226427367563461 / 2 ^ 50"
  by (subst f64_normal[where m = 1076]) (simp_all add: rne_def)
lemma f64_4_438: "f64 4.438 = 4996743786567565 / 2 ^ 50"
  by (subst f64_normal[where m = 1076]) (simp_all add: rne_def)
lemma f64_4_141: "f64 4.141 = 4662351514235306 / 2 ^ 50"
  by (subst f64_normal[where m = 1076]) (simp_all add: rne_def)
lemma f64_3_751: "f64 3.751 = 8446501101133365 / 2 ^ 51"
  by (subst f64_normal[where m = 1075]) (simp_all add: rne_def)
lemma f64_3_325: "f64 3.325 = 7487234380503450 / 2 ^ 51"
  by (subst f64_normal[where m = 1075]) (simp_all add: rne_def)
lemma f64_2_838: "f64 2.838 = 6390607871238734 / 2 ^ 51"
  by (subst f64_normal[where m = 1075]) (simp_all add: rne_def)
lemma f64_2_500: "f64 2.500 = 5 / 2"
  by (subst f64_normal[where m = 1075]) (simp_all add: rne_def)
lemma f64_1_915: "f64 1.915 = 8624393286414500 / 2 ^ 52"
  by (subst f64_normal[where m = 1074]) (simp_all add: rne_def)
lemma f64_1_212: "f64 1.212 = 5458362748373041 / 2 ^ 52"
  by (subst f64_normal[where m = 1074]) (simp_all add: rne_def)
lemma f64_0_749: "f64 0.749 = 6746392241801003 / 2 ^ 53"
  by (subst f64_normal[where m = 1073]) (simp_all add: rne_def)

lemmas f64_literals =
  f64_4_771 f64_4_642 f64_4_438 f64_4_141 f64_3_751 f64_3_325 f64_2_838 f64_2_500
  f64_1_915 f64_1_212 f64_0_749

lemma f32_4_771: "f32 4.771 = 10005512 / 2 ^ 21"
  by (subst f32_normal[where m = 151]) (simp_all add: rne_def)

lemma f32_2_838: "f32 2.838 = 11903435 / 2 ^ 22"
  by (subst f32_normal[where m = 150]) (simp_all add: rne_def)

lemma f32_0_1: "f32 0.1 = 13421773 / 2 ^ 27"
  by (subst f32_normal[where m = 145]) (simp_all add: rne_def)

lemma interpolateTemperature_binary64:
  "interpolateTemperature v =
     (if 5371668455546159 / 2 ^ 50 \<le> v then - 20
      else if 5226427367563461 / 2 ^ 50 \<le> v then - 10
      else if 4996743786567565 / 2 ^ 50 \<le> v then 0
      else if 4662351514235306 / 2 ^ 50 \<le> v then 10
      else if 8446501101133365 / 2 ^ 51 \<le> v then 20
      else if 7487234380503450 / 2 ^ 51 \<le> v then 30
      else if 6390607871238734 / 2 ^ 51 \<le> v then 40
      else if 5 / 2 \<le> v then 50
      else if 8624393286414500 / 2 ^ 52 \<le> v then 60
      else if 5458362748373041 / 2 ^ 52 \<le> v then 80
      else if 6746392241801003 / 2 ^ 53 \<le> v then 100
      else 120)"
  unfolding interpolateTemperature_def f64_literals by (rule refl)

lemma interpolateTemperature_emulated:
  "interpolateTemperature 1 = 100" "interpolateTemperature 2 = 60" "interpolateTemperature 3 = 40"
  by (simp_all add: interpolateTemperature_binary64)


section \<open>The temperature curve\<close>

text \<open>
  Claim C8: the curve is monotonically non-increasing.  For all voltages \<open>v1 < v2\<close> (inside
  or outside the calibrated range) the temperature reported for \<open>v2\<close> is at most the
  temperature reported for \<open>v1\<close>.
\<close>

theorem interpolateTemperature_antitone:
  "v1 < v2 \<Longrightarrow> interpolateTemperature v2 \<le> interpolateTemperature v1"
  unfolding interpolateTemperature_binary64 by auto

theorem interpolateTemperature_antitone_witness:
  "(2::real) < 3 \<and> interpolateTemperature 3 \<le> interpolateTemperature 2"
  using interpolateTemperature_antitone[of 2 3] by simp

text \<open>
  Claim C3: the curve returns the temperature of the highest listed breakpoint that the
  voltage meets or exceeds, in particular \<open>- 20\<close> at 4.771.  The step table of the
  specification gives \<open>- 20\<close> at 4.771, but the argument of \<^verbatim>\<open>interpolateTemperature\<close> is a
  \<^verbatim>\<open>float\<close>: the call \<^verbatim>\<open>interpolateTemperature(4.771f)\<close> of the unit test passes the binary32
  number nearest to 4.771, which is below the binary64 breakpoint \<^verbatim>\<open>4.771\<close> it is compared
  with, and the function returns \<open>- 10\<close>.
\<close>

theorem interpolateTemperature_float_4_771:
  "interpolateTemperature v = step_table (map (\<lambda>(b, t). (f64 b, t)) breakpoints) v \<and>
   step_table breakpoints 4.771 = - 20 \<and> f32 4.771 < f64 4.771 \<and>
   interpolateTemperature (f32 4.771) = - 10 \<and>
   interpolateTemperature (f32 2.838) = 40 \<and> interpolateTemperature (f32 0.1) = 120"
proof -
  have 1: "interpolateTemperature v = step_table (map (\<lambda>(b, t). (f64 b, t)) breakpoints) v"
    by (simp add: interpolateTemperature_def breakpoints_def)
  have 2: "step_table breakpoints 4.771 = - 20"
    by (simp add: breakpoints_def)
  have 3: "f32 4.771 < f64 4.771 \<and> interpolateTemperature (f32 4.771) = - 10"
    unfolding f32_4_771 f64_4_771 interpolateTemperature_binary64 by simp
  have 4: "interpolateTemperature (f32 2.838) = 40"
    unfolding f32_2_838 interpolateTemperature_binary64 by simp
  have 5: "interpolateTemperature (f32 0.1) = 120"
    unfolding f32_0_1 interpolateTemperature_binary64 by simp
  from 1 2 3 4 5 show ?thesis by blast
qed

section \<open>Evaluation and range of the float operations\<close>

lemmas f32_eval = f32_def round_binary_def rne_def compute_floorlog Let_def
lemmas float_ops = fadd_def fsub_def fmul_def fdiv_def

lemma f32_mono: "0 \<le> x \<Longrightarrow> x \<le> y \<Longrightarrow> f32 x \<le> f32 y"
  unfolding f32_def by (rule round_binary_mono) simp_all

lemma f32_0: "f32 0 = 0" by (simp add: f32_eval)
lemma f32_1: "f32 1 = 1" by (simp add: f32_eval)
lemma f32_255: "f32 255 = 255" by (simp add: f32_eval)

lemma CAN_byte_range:
  assumes "0 \<le> x" "x \<le> 100"
  shows "0 \<le> fmul (fdiv x 100) 255" "fmul (fdiv x 100) 255 \<le> 255"
proof -
  have a: "0 \<le> fdiv x 100"
    using f32_mono[of 0 "x / 100"] assms by (simp add: fdiv_def f32_0)
  have b: "fdiv x 100 \<le> 1"
    using f32_mono[of "x / 100" 1] assms by (simp add: fdiv_def f32_1)
  show "0 \<le> fmul (fdiv x 100) 255"
    using f32_mono[of 0 "fdiv x 100 * 255"] a by (simp add: fmul_def f32_0)
  show "fmul (fdiv x 100) 255 \<le> 255"
    using f32_mono[of "fdiv x 100 * 255" 255] a b by (simp add: fmul_def f32_255)
qed

lemma uchar_of_float_range:
  "0 \<le> x \<Longrightarrow> x \<le> 255 \<Longrightarrow> uchar_of_float x = Some (word_of_int \<lfloor>x\<rfloor>)"
  by (simp add: uchar_of_float_def truncate_toward_zero_def Let_def floor_le_iff le_floor_iff)

lemma CANcontrol_in_range:
  assumes "0 \<le> p" "p \<le> 100" "0 \<le> f" "f \<le> 100"
  shows "CANcontrol p f =
         Some \<lparr>CANID = 0x18FF408F,
               msg = [0, 0, word_of_int \<lfloor>fmul (fdiv p 100) 255\<rfloor>, 0, 0, 0,
                      word_of_int \<lfloor>fmul (fdiv f 100) 255\<rfloor>, 0]\<rparr>"
  using CAN_byte_range[OF assms(1,2)] CAN_byte_range[OF assms(3,4)]
  by (simp add: CANcontrol_def uchar_of_float_range numeral_eq_Suc)

lemma limit_speed_range: "0 \<le> limit_speed x" "limit_speed x \<le> 100"
  by (simp_all add: limit_speed_def Let_def)

lemma limit_speed_cases:
  "x < 0 \<Longrightarrow> limit_speed x = 0" "100 < x \<Longrightarrow> limit_speed x = 100"
  "0 \<le> x \<Longrightarrow> x \<le> 100 \<Longrightarrow> limit_speed x = x"
  by (simp_all add: limit_speed_def Let_def)

lemma CANcontrol_50_0:
  "CANcontrol 50 0 = Some \<lparr>CANID = 0x18FF408F, msg = [0, 0, 127, 0, 0, 0, 0, 0]\<rparr>"
proof -
  have a: "fmul (fdiv 50 100) 255 = 255 / 2" by (simp add: float_ops f32_eval)
  have b: "fmul (fdiv 0 100) 255 = 0" by (simp add: float_ops f32_eval)
  show ?thesis
    by (subst CANcontrol_in_range) (simp_all add: a b)
qed


section \<open>The PID controller\<close>

lemma compute_test:
  "compute (PIDController_new 1 (f32 0.1) (f32 0.01)) 50 45 =
     (11639194 / 2 ^ 21,
      \<lparr>Kp = 1, Ki = f32 0.1, Kd = f32 0.01, prevError = 5, integral = 5\<rparr>)"
proof -
  have e: "fsub 50 45 = 5" by (simp add: float_ops f32_eval)
  have i: "fadd 0 5 = 5" by (simp add: float_ops f32_eval)
  have d: "fsub 5 0 = 5" by (simp add: float_ops f32_eval)
  have p1: "fmul 1 5 = 5" by (simp add: float_ops f32_eval)
  have p2: "fmul (f32 0.1) 5 = 1 / 2" by (simp add: float_ops f32_eval)
  have p3: "fmul (f32 0.01) 5 = 3355443 / 2 ^ 26" by (simp add: float_ops f32_eval)
  have s1: "fadd 5 (1 / 2) = 11 / 2" by (simp add: float_ops f32_eval)
  have s2: "fadd (11 / 2) (3355443 / 2 ^ 26) = 11639194 / 2 ^ 21" by (simp add: float_ops f32_eval)
  show ?thesis
    unfolding compute_def PIDController_new_def Let_def
    by (simp only: PIDController.simps e i d p1 p2 p3 s1 s2)
qed

text \<open>
  Claim C4: \<^verbatim>\<open>compute\<close> implements the stated recurrence on its state: error, accumulated
  error, derivative, previous error and the output \<open>Kp * error + Ki * integral + Kd * derivative\<close>,
  for all inputs, with no limit on the output or on the accumulator, in \<^verbatim>\<open>float\<close> arithmetic;
  the gains are left unchanged.  With exact arithmetic the recurrence gives 5.55 for gains
  \<open>(1, 0.1, 0.01)\<close> on the first call \<open>compute(50, 45)\<close>, and the fresh controller of
  the unit test returns a value within 0.1 of 5.5.
\<close>

theorem compute_recurrence:
  "(case compute c setpoint measured of (out, c') \<Rightarrow>
      (out, prevError c', integral c') =
        pid_recurrence fadd fsub fmul (Kp c, Ki c, Kd c) (prevError c, integral c)
          setpoint measured
      \<and> Kp c' = Kp c \<and> Ki c' = Ki c \<and> Kd c' = Kd c)
   \<and> pid_recurrence (+) (-) (*) (1, 0.1, 0.01) (0, 0) 50 45 = (5.55, 5, 5)
   \<and> \<bar>fst (compute (PIDController_new 1 (f32 0.1) (f32 0.01)) 50 45) - 5.5\<bar> \<le> 0.1"
  unfolding compute_test by (simp add: compute_def pid_recurrence_def Let_def)

section \<open>The loop: helper facts\<close>

lemmas io_defs = controlPump_def controlFan_def safetyShutdown_def

lemma regulate_low:
  "\<not> levelSwitch s \<Longrightarrow>
   regulate s = (s\<lparr>currentState := SAFETY_SHUTDOWN\<rparr>,
                 [Console Low_coolant_level, Pump 0, Fan 0, Console Entering_safety_shutdown])"
  by (simp add: regulate_def io_defs)

lemma regulate_ok:
  "levelSwitch s \<Longrightarrow>
   regulate s =
     (let pump = compute (pumpPID s) (tempSetpoint s) (measuredTemperature s);
          fan = compute (fanPID s) (tempSetpoint s) (measuredTemperature s);
          s1 = s\<lparr>pumpPID := snd pump, fanPID := snd fan,
                 pumpSpeed := limit_speed (fst pump), fanSpeed := limit_speed (fst fan)\<rparr>;
          applied = [Pump (limit_speed (fst pump)), Fan (limit_speed (fst fan))]
      in if safetyThreshold s < measuredTemperature s then
           (s1\<lparr>currentState := SAFETY_SHUTDOWN\<rparr>,
            applied @ [Console Overtemperature, Pump 0, Fan 0, Console Entering_safety_shutdown])
         else
           (s1, applied @ [Console (Status (measuredTemperature s)
                                      (limit_speed (fst pump)) (limit_speed (fst fan)))]))"
  by (simp add: regulate_def io_defs Let_def split: prod.splits)

lemma regulate_speeds:
  "speeds_in_range s \<Longrightarrow> speeds_in_range (fst (regulate s))"
  by (cases "levelSwitch s")
     (simp_all add: regulate_low regulate_ok Let_def speeds_in_range_def limit_speed_range)

lemma regulate_events:
  "list_all speed_in_range (snd (regulate s))"
  by (cases "levelSwitch s")
     (simp_all add: regulate_low regulate_ok Let_def limit_speed_range)

lemma regulate_no_CAN:
  "filter is_CAN (snd (regulate s)) = []"
  by (cases "levelSwitch s") (simp_all add: regulate_low regulate_ok Let_def)

lemma acquire_fields:
  "pumpSpeed (acquire r s) = pumpSpeed s" "fanSpeed (acquire r s) = fanSpeed s"
  "pumpPID (acquire r s) = pumpPID s" "fanPID (acquire r s) = fanPID s"
  "levelSwitch (acquire r s) = levelSwitch s" "currentState (acquire r s) = currentState s"
  "tempSetpoint (acquire r s) = tempSetpoint s" "safetyThreshold (acquire r s) = safetyThreshold s"
  "measuredTemperature (acquire r s) = interpolateTemperature (fadd 1 (real (r mod 3)))"
  by (simp_all add: acquire_def Let_def)

lemma acquire_speeds: "speeds_in_range (acquire r s) = speeds_in_range s"
  by (simp add: speeds_in_range_def acquire_fields)

lemma case_OFF_speeds: "speeds_in_range s \<Longrightarrow> speeds_in_range (fst (case_OFF s))"
  by (simp add: case_OFF_def speeds_in_range_def Let_def)

lemma case_OFF_events:
  "list_all speed_in_range (snd (case_OFF s))" "filter is_CAN (snd (case_OFF s)) = []"
  by (simp_all add: case_OFF_def Let_def)

lemma end_of_iteration_in_range:
  assumes "speeds_in_range s"
  shows "\<exists>fr. CANcontrol (pumpSpeed s) (fanSpeed s) = Some fr \<and>
              end_of_iteration (s, out) = Continue s (out @ [CAN fr])"
proof -
  from assms obtain fr where "CANcontrol (pumpSpeed s) (fanSpeed s) = Some fr"
    using CANcontrol_in_range[of "pumpSpeed s" "fanSpeed s"] by (auto simp: speeds_in_range_def)
  then show ?thesis by (simp add: end_of_iteration_def)
qed

lemma loop_iteration_in_range:
  assumes "speeds_in_range s" "currentState s \<noteq> SAFETY_SHUTDOWN"
  shows "\<exists>s' out fr. loop_iteration r s = Continue s' (out @ [CAN fr]) \<and>
           (s', out) = (case currentState s of OFF \<Rightarrow> case_OFF s | _ \<Rightarrow> regulate (acquire r s)) \<and>
           speeds_in_range s' \<and> list_all speed_in_range out \<and> filter is_CAN out = [] \<and>
           CANcontrol (pumpSpeed s') (fanSpeed s') = Some fr"
proof (cases "currentState s")
  case OFF
  obtain s' out where c: "case_OFF s = (s', out)" by (cases "case_OFF s")
  have r: "speeds_in_range s'" using case_OFF_speeds[OF assms(1)] c by simp
  from end_of_iteration_in_range[OF r, of out] c OFF case_OFF_events[of s] r
  show ?thesis by (auto simp: loop_iteration_def)
next
  case ON
  obtain s' out where c: "regulate (acquire r s) = (s', out)" by (cases "regulate (acquire r s)")
  have "speeds_in_range (acquire r s)" using assms(1) by (simp add: acquire_speeds)
  then have r: "speeds_in_range s'" using regulate_speeds[of "acquire r s"] c by simp
  from end_of_iteration_in_range[OF r, of out] c ON r
    regulate_events[of "acquire r s"] regulate_no_CAN[of "acquire r s"]
  show ?thesis by (auto simp: loop_iteration_def)
next
  case SAFETY_SHUTDOWN
  with assms show ?thesis by simp
qed

lemma loop_iteration_shutdown:
  "currentState s = SAFETY_SHUTDOWN \<Longrightarrow> loop_iteration r s = Return 0 [Console In_safety_shutdown]"
  by (simp add: loop_iteration_def)

lemma run_in_range:
  "speeds_in_range s \<Longrightarrow>
   list_all speed_in_range (events (run rs s)) \<and>
   (\<forall>out. run rs s \<noteq> Undefined_behaviour out) \<and>
   (\<forall>s' out. run rs s = Continue s' out \<longrightarrow> speeds_in_range s')"
proof (induction rs arbitrary: s)
  case Nil
  then show ?case by simp
next
  case (Cons r rs)
  show ?case
  proof (cases "currentState s = SAFETY_SHUTDOWN")
    case True
    then show ?thesis by (simp add: loop_iteration_shutdown)
  next
    case False
    from loop_iteration_in_range[OF Cons.prems False, of r]
    obtain s' out fr where it: "loop_iteration r s = Continue s' (out @ [CAN fr])"
      and r: "speeds_in_range s'" and ev: "list_all speed_in_range out" by blast
    from Cons.IH[OF r] it ev show ?thesis
      by (cases "run rs s'") (auto simp: prepend_def)
  qed
qed

lemma run_append:
  "run rs s = Continue s' out \<Longrightarrow> run (rs @ rs') s = prepend out (run rs' s')"
proof (induction rs arbitrary: s out)
  case Nil
  then show ?case by (cases "run rs' s'") (simp_all add: prepend_def)
next
  case (Cons r rs)
  from Cons.prems obtain s1 out1 out2 where it: "loop_iteration r s = Continue s1 out1"
    and rest: "run rs s1 = Continue s' out2" and out: "out = out1 @ out2"
    by (cases "loop_iteration r s"; cases "run rs (case loop_iteration r s of Continue a b \<Rightarrow> a)")
       (auto simp: prepend_def)
  from Cons.IH[OF rest] it out show ?case
    by (cases "run rs' s'") (simp_all add: prepend_def)
qed

lemma end_of_regulate:
  assumes "speeds_in_range m"
  shows "\<exists>fr. end_of_iteration (regulate m) = Continue (fst (regulate m)) (snd (regulate m) @ [CAN fr])
              \<and> CANcontrol (pumpSpeed (fst (regulate m))) (fanSpeed (fst (regulate m))) = Some fr"
  using end_of_iteration_in_range[OF regulate_speeds[OF assms], of "snd (regulate m)"]
  by auto

lemma ON_iteration_low:
  assumes "speeds_in_range m" "\<not> levelSwitch m"
  shows "\<exists>fr. end_of_iteration (regulate m) =
                Continue (m\<lparr>currentState := SAFETY_SHUTDOWN\<rparr>)
                  [Console Low_coolant_level, Pump 0, Fan 0, Console Entering_safety_shutdown, CAN fr]
              \<and> CANcontrol (pumpSpeed m) (fanSpeed m) = Some fr"
  using end_of_regulate[OF assms(1)] assms(2) by (simp add: regulate_low)

lemma ON_iteration_ok:
  assumes "speeds_in_range m" "levelSwitch m"
  shows "\<exists>s' fr.
           pumpPID s' = snd (compute (pumpPID m) (tempSetpoint m) (measuredTemperature m)) \<and>
           fanPID s' = snd (compute (fanPID m) (tempSetpoint m) (measuredTemperature m)) \<and>
           pumpSpeed s' = limit_speed (fst (compute (pumpPID m) (tempSetpoint m) (measuredTemperature m))) \<and>
           fanSpeed s' = limit_speed (fst (compute (fanPID m) (tempSetpoint m) (measuredTemperature m))) \<and>
           tempSetpoint s' = tempSetpoint m \<and> safetyThreshold s' = safetyThreshold m \<and>
           levelSwitch s' \<and> speeds_in_range s' \<and>
           CANcontrol (pumpSpeed s') (fanSpeed s') = Some fr \<and>
           (if safetyThreshold m < measuredTemperature m then
              end_of_iteration (regulate m) =
                Continue s' [Pump (pumpSpeed s'), Fan (fanSpeed s'), Console Overtemperature,
                             Pump 0, Fan 0, Console Entering_safety_shutdown, CAN fr] \<and>
              currentState s' = SAFETY_SHUTDOWN
            else
              end_of_iteration (regulate m) =
                Continue s' [Pump (pumpSpeed s'), Fan (fanSpeed s'),
                             Console (Status (measuredTemperature m) (pumpSpeed s') (fanSpeed s')),
                             CAN fr] \<and>
              currentState s' = currentState m)"
proof -
  from end_of_regulate[OF assms(1)] obtain fr where
    e: "end_of_iteration (regulate m) = Continue (fst (regulate m)) (snd (regulate m) @ [CAN fr])"
    and c: "CANcontrol (pumpSpeed (fst (regulate m))) (fanSpeed (fst (regulate m))) = Some fr"
    by blast
  show ?thesis
  proof (cases "safetyThreshold m < measuredTemperature m")
    case True
    with e c assms(2) show ?thesis
      by (intro exI[of _ "fst (regulate m)"] exI[of _ fr])
         (simp add: regulate_ok Let_def speeds_in_range_def limit_speed_range)
  next
    case False
    with e c assms(2) show ?thesis
      by (intro exI[of _ "fst (regulate m)"] exI[of _ fr])
         (simp add: regulate_ok Let_def speeds_in_range_def limit_speed_range)
  qed
qed


lemma speeds_in_range_measured:
  "speeds_in_range (s\<lparr>measuredTemperature := t\<rparr>) = speeds_in_range s"
  by (simp add: speeds_in_range_def)

lemma scenario_60_65_75:
  assumes "speeds_in_range s" "levelSwitch s" "safetyThreshold s = 70"
  shows "\<exists>s1 out1 s2 out2 s3 p f fr.
           ON_iteration_at 60 s = Continue s1 out1 \<and> currentState s1 = currentState s \<and>
           ON_iteration_at 65 s1 = Continue s2 out2 \<and> currentState s2 = currentState s \<and>
           ON_iteration_at 75 s2 =
             Continue s3 [Pump p, Fan f, Console Overtemperature, Pump 0, Fan 0,
                          Console Entering_safety_shutdown, CAN fr] \<and>
           currentState s3 = SAFETY_SHUTDOWN"
proof -
  let ?m1 = "s\<lparr>measuredTemperature := 60\<rparr>"
  from ON_iteration_ok[of ?m1] assms
  obtain s1 fr1 where 1:
    "end_of_iteration (regulate ?m1) =
       Continue s1 [Pump (pumpSpeed s1), Fan (fanSpeed s1),
                    Console (Status (measuredTemperature ?m1) (pumpSpeed s1) (fanSpeed s1)), CAN fr1]"
    "currentState s1 = currentState s" "speeds_in_range s1" "levelSwitch s1"
    "safetyThreshold s1 = 70"
    by (auto simp: speeds_in_range_measured)
  let ?m2 = "s1\<lparr>measuredTemperature := 65\<rparr>"
  from ON_iteration_ok[of ?m2] 1
  obtain s2 fr2 where 2:
    "end_of_iteration (regulate ?m2) =
       Continue s2 [Pump (pumpSpeed s2), Fan (fanSpeed s2),
                    Console (Status (measuredTemperature ?m2) (pumpSpeed s2) (fanSpeed s2)), CAN fr2]"
    "currentState s2 = currentState s" "speeds_in_range s2" "levelSwitch s2"
    "safetyThreshold s2 = 70"
    by (auto simp: speeds_in_range_measured)
  let ?m3 = "s2\<lparr>measuredTemperature := 75\<rparr>"
  from ON_iteration_ok[of ?m3] 2
  obtain s3 fr3 where 3:
    "end_of_iteration (regulate ?m3) =
       Continue s3 [Pump (pumpSpeed s3), Fan (fanSpeed s3), Console Overtemperature,
                    Pump 0, Fan 0, Console Entering_safety_shutdown, CAN fr3]"
    "currentState s3 = SAFETY_SHUTDOWN"
    by (auto simp: speeds_in_range_measured)
  from 1 2 3 show ?thesis unfolding ON_iteration_at_def by blast
qed

lemma CANcontrol_0_0:
  "CANcontrol 0 0 = Some \<lparr>CANID = 0x18FF408F, msg = [0, 0, 0, 0, 0, 0, 0, 0]\<rparr>"
proof -
  have b: "fmul (fdiv 0 100) 255 = 0" by (simp add: float_ops f32_eval)
  show ?thesis by (subst CANcontrol_in_range) (simp_all add: b)
qed

lemma speeds_in_range_initial: "speeds_in_range (initial setpoint threshold)"
  by (simp add: speeds_in_range_def initial_def)

lemma speeds_in_range_started: "speeds_in_range (started setpoint threshold)"
  by (simp add: speeds_in_range_def initial_def started_def)

lemma first_iteration:
  "loop_iteration r (initial setpoint threshold) =
     Continue (started setpoint threshold)
       [Console System_ON, CAN \<lparr>CANID = 0x18FF408F, msg = [0, 0, 0, 0, 0, 0, 0, 0]\<rparr>]"
  by (simp add: loop_iteration_def initial_def started_def case_OFF_def end_of_iteration_def
      CANcontrol_0_0)

lemma emulated_voltage:
  "fadd 1 (real (r mod 3)) = 1 + real (r mod 3)"
proof -
  have v: "fadd 1 0 = 1" "fadd 1 1 = 2" "fadd 1 2 = 3"
    by (simp_all add: float_ops f32_eval)
  have "r mod 3 = 0 \<or> r mod 3 = 1 \<or> r mod 3 = 2" by arith
  then show ?thesis using v by (elim disjE) simp_all
qed

lemma measured_emulated:
  "measuredTemperature (acquire r s) =
     (if r mod 3 = 0 then 100 else if r mod 3 = 1 then 60 else 40)"
proof -
  have "r mod 3 = 0 \<or> r mod 3 = 1 \<or> r mod 3 = 2" by arith
  then show ?thesis
    unfolding acquire_fields emulated_voltage
    by (elim disjE) (simp_all add: interpolateTemperature_emulated)
qed

lemma three_iterations:
  "\<exists>out. run [0, 0, 0] (initial 50 70) = Return 0 out \<and> length (filter is_CAN out) = 2 \<and>
         last out = Console In_safety_shutdown"
proof -
  let ?s = "acquire 0 (started 50 70)"
  have m: "speeds_in_range ?s" "levelSwitch ?s" "safetyThreshold ?s < measuredTemperature ?s"
    by (simp_all add: acquire_speeds speeds_in_range_started measured_emulated)
       (simp_all add: acquire_fields started_def initial_def)
  from ON_iteration_ok[OF m(1,2)] m(3)
  obtain s' fr where 2:
    "end_of_iteration (regulate ?s) =
       Continue s' [Pump (pumpSpeed s'), Fan (fanSpeed s'), Console Overtemperature,
                    Pump 0, Fan 0, Console Entering_safety_shutdown, CAN fr]"
    "currentState s' = SAFETY_SHUTDOWN"
    by auto
  have on: "currentState (started 50 70) = ON" by (simp add: started_def)
  have "loop_iteration 0 (started 50 70) = end_of_iteration (regulate ?s)"
    using on by (simp add: loop_iteration_def)
  with 2 show ?thesis
    by (simp add: first_iteration prepend_def loop_iteration_shutdown)
qed

lemma compute_pump_50_40:
  "compute (PIDController_new (f32 0.5) (f32 0.1) (f32 0.05)) 50 40 =
     (13 / 2, \<lparr>Kp = f32 0.5, Ki = f32 0.1, Kd = f32 0.05, prevError = 10, integral = 10\<rparr>)"
proof -
  have e: "fsub 50 40 = 10" by (simp add: float_ops f32_eval)
  have i: "fadd 0 10 = 10" by (simp add: float_ops f32_eval)
  have d: "fsub 10 0 = 10" by (simp add: float_ops f32_eval)
  have p1: "fmul (f32 0.5) 10 = 5" by (simp add: float_ops f32_eval)
  have p2: "fmul (f32 0.1) 10 = 1" by (simp add: float_ops f32_eval)
  have p3: "fmul (f32 0.05) 10 = 1 / 2" by (simp add: float_ops f32_eval)
  have s1: "fadd 5 1 = 6" by (simp add: float_ops f32_eval)
  have s2: "fadd 6 (1 / 2) = 13 / 2" by (simp add: float_ops f32_eval)
  show ?thesis
    unfolding compute_def PIDController_new_def Let_def
    by (simp only: PIDController.simps e i d p1 p2 p3 s1 s2)
qed

lemma compute_fan_50_40:
  "compute (PIDController_new (f32 0.4) (f32 0.1) (f32 0.03)) 50 40 =
     (5557453 / 2 ^ 20,
      \<lparr>Kp = f32 0.4, Ki = f32 0.1, Kd = f32 0.03, prevError = 10, integral = 10\<rparr>)"
proof -
  have e: "fsub 50 40 = 10" by (simp add: float_ops f32_eval)
  have i: "fadd 0 10 = 10" by (simp add: float_ops f32_eval)
  have d: "fsub 10 0 = 10" by (simp add: float_ops f32_eval)
  have p1: "fmul (f32 0.4) 10 = 4" by (simp add: float_ops f32_eval)
  have p2: "fmul (f32 0.1) 10 = 1" by (simp add: float_ops f32_eval)
  have p3: "fmul (f32 0.03) 10 = 10066329 / 2 ^ 25" by (simp add: float_ops f32_eval)
  have s1: "fadd 4 1 = 5" by (simp add: float_ops f32_eval)
  have s2: "fadd 5 (10066329 / 2 ^ 25) = 5557453 / 2 ^ 20" by (simp add: float_ops f32_eval)
  show ?thesis
    unfolding compute_def PIDController_new_def Let_def
    by (simp only: PIDController.simps e i d p1 p2 p3 s1 s2)
qed

lemma CANcontrol_overtemperature:
  "CANcontrol (13 / 2) (5557453 / 2 ^ 20) =
     Some \<lparr>CANID = 0x18FF408F, msg = [0, 0, 16, 0, 0, 0, 13, 0]\<rparr>"
proof -
  have a: "fmul (fdiv (13 / 2) 100) 255 = 8690073 / 2 ^ 19" by (simp add: float_ops f32_eval)
  have b: "fmul (fdiv (5557453 / 2 ^ 20) 100) 255 = 14171505 / 2 ^ 20"
    by (simp add: float_ops f32_eval)
  have fa: "\<lfloor>fmul (fdiv (13 / 2) 100) 255\<rfloor> = 16" unfolding a by simp
  have fb: "\<lfloor>fmul (fdiv (5557453 / 2 ^ 20) 100) 255\<rfloor> = 13" unfolding b by simp
  show ?thesis
    by (subst CANcontrol_in_range) (simp_all only: fa fb, simp_all)
qed


lemma round_binary_nonpos: "x \<le> 0 \<Longrightarrow> round_binary p k x \<le> 0"
proof -
  assume x: "x \<le> 0"
  define e where "e = max (floorlog 2 (nat \<lfloor>\<bar>x\<bar> * 2 ^ k\<rfloor>)) p"
  have "x * 2 ^ (p + k) / 2 ^ e \<le> real_of_int 0"
    using x by (simp add: divide_le_0_iff mult_le_0_iff)
  then have "rne (x * 2 ^ (p + k) / 2 ^ e) \<le> rne (real_of_int 0)" by (rule rne_mono)
  then have "rne (x * 2 ^ (p + k) / 2 ^ e) \<le> 0" unfolding rne_of_int .
  then have "real_of_int (rne (x * 2 ^ (p + k) / 2 ^ e)) * 2 ^ e / 2 ^ (p + k) \<le> 0"
    by (simp add: divide_le_0_iff mult_le_0_iff)
  then show ?thesis by (simp add: round_binary_def e_def Let_def)
qed

lemma f32_nonpos: "x \<le> 0 \<Longrightarrow> f32 x \<le> 0"
  unfolding f32_def by (rule round_binary_nonpos)

lemma f32_nonneg: "0 \<le> x \<Longrightarrow> 0 \<le> f32 x"
  using f32_mono[of 0 x] by (simp add: f32_0)

lemma fadd_nonpos: "a \<le> 0 \<Longrightarrow> b \<le> 0 \<Longrightarrow> fadd a b \<le> 0"
  unfolding fadd_def by (rule f32_nonpos) simp

lemma fsub_nonpos: "a \<le> b \<Longrightarrow> fsub a b \<le> 0"
  unfolding fsub_def by (rule f32_nonpos) simp

lemma fmul_nonpos: "0 \<le> a \<Longrightarrow> b \<le> 0 \<Longrightarrow> fmul a b \<le> 0"
  unfolding fmul_def by (rule f32_nonpos) (simp add: mult_le_0_iff)

lemma compute_nonpos:
  assumes "0 \<le> Kp c" "0 \<le> Ki c" "0 \<le> Kd c" "integral c \<le> 0"
    and "fsub sp t \<le> 0" "fsub sp t \<le> prevError c"
  shows "fst (compute c sp t) \<le> 0" "integral (snd (compute c sp t)) \<le> 0"
proof -
  have i: "fadd (integral c) (fsub sp t) \<le> 0"
    using assms(4,5) by (rule fadd_nonpos)
  have d: "fsub (fsub sp t) (prevError c) \<le> 0"
    using assms(6) by (rule fsub_nonpos)
  show "fst (compute c sp t) \<le> 0"
    unfolding compute_def Let_def fst_conv
    by (intro fadd_nonpos fmul_nonpos assms i d)
  show "integral (snd (compute c sp t)) \<le> 0"
    using i by (simp add: compute_def Let_def)
qed

lemma compute_state:
  "prevError (snd (compute c sp t)) = fsub sp t"
  "Kp (snd (compute c sp t)) = Kp c" "Ki (snd (compute c sp t)) = Ki c"
  "Kd (snd (compute c sp t)) = Kd c"
  by (simp_all add: compute_def Let_def)

lemma limit_speed_nonpos: "x \<le> 0 \<Longrightarrow> limit_speed x = 0"
  by (simp add: limit_speed_def Let_def)

lemma ON_iteration_no_demand:
  assumes "speeds_in_range s" "levelSwitch s" "no_demand (fsub (tempSetpoint s) t) s"
    "fsub (tempSetpoint s) t \<le> 0"
  shows "\<exists>s'. speeds_in_range s' \<and> levelSwitch s' \<and> tempSetpoint s' = tempSetpoint s \<and>
           safetyThreshold s' = safetyThreshold s \<and>
           (\<forall>e \<le> fsub (tempSetpoint s) t. no_demand e s') \<and>
           (if safetyThreshold s < t then
              ON_iteration_at t s =
                Continue s' [Pump 0, Fan 0, Console Overtemperature, Pump 0, Fan 0,
                             Console Entering_safety_shutdown,
                             CAN \<lparr>CANID = 0x18FF408F, msg = [0, 0, 0, 0, 0, 0, 0, 0]\<rparr>] \<and>
              currentState s' = SAFETY_SHUTDOWN
            else
              ON_iteration_at t s =
                Continue s' [Pump 0, Fan 0, Console (Status t 0 0),
                             CAN \<lparr>CANID = 0x18FF408F, msg = [0, 0, 0, 0, 0, 0, 0, 0]\<rparr>] \<and>
              currentState s' = currentState s)"
proof -
  let ?m = "s\<lparr>measuredTemperature := t\<rparr>"
  have m: "speeds_in_range ?m" "levelSwitch ?m"
    using assms(1,2) by (simp_all add: speeds_in_range_def)
  have p: "limit_speed (fst (compute (pumpPID s) (tempSetpoint s) t)) = 0"
    using assms(3,4) by (intro limit_speed_nonpos compute_nonpos) (simp_all add: no_demand_def)
  have f: "limit_speed (fst (compute (fanPID s) (tempSetpoint s) t)) = 0"
    using assms(3,4) by (intro limit_speed_nonpos compute_nonpos) (simp_all add: no_demand_def)
  have ip: "integral (snd (compute (pumpPID s) (tempSetpoint s) t)) \<le> 0"
    using assms(3,4) by (intro compute_nonpos) (simp_all add: no_demand_def)
  have "if": "integral (snd (compute (fanPID s) (tempSetpoint s) t)) \<le> 0"
    using assms(3,4) by (intro compute_nonpos) (simp_all add: no_demand_def)
  from ON_iteration_ok[OF m] obtain s' fr where s':
    "pumpPID s' = snd (compute (pumpPID s) (tempSetpoint s) t)"
    "fanPID s' = snd (compute (fanPID s) (tempSetpoint s) t)"
    "pumpSpeed s' = 0" "fanSpeed s' = 0"
    "tempSetpoint s' = tempSetpoint s" "safetyThreshold s' = safetyThreshold s"
    "levelSwitch s'" "speeds_in_range s'" "CANcontrol 0 0 = Some fr"
    and it: "if safetyThreshold s < t then
              end_of_iteration (regulate ?m) =
                Continue s' [Pump 0, Fan 0, Console Overtemperature,
                             Pump 0, Fan 0, Console Entering_safety_shutdown, CAN fr] \<and>
              currentState s' = SAFETY_SHUTDOWN
            else
              end_of_iteration (regulate ?m) =
                Continue s' [Pump 0, Fan 0, Console (Status t 0 0), CAN fr] \<and>
              currentState s' = currentState s"
    by (auto simp: p f split: if_splits)
  have fr: "fr = \<lparr>CANID = 0x18FF408F, msg = [0, 0, 0, 0, 0, 0, 0, 0]\<rparr>"
    using s'(9) unfolding CANcontrol_0_0 by simp
  have nd: "\<forall>e \<le> fsub (tempSetpoint s) t. no_demand e s'"
    using assms(3) ip "if" by (simp add: no_demand_def s'(1,2) compute_state)
  from s' it nd show ?thesis
    unfolding ON_iteration_at_def fr by (intro exI[of _ s']) (simp split: if_splits)
qed

lemma errors_60_65_75: "fsub 50 60 = - 10" "fsub 50 65 = - 15" "fsub 50 75 = - 25"
  by (simp_all add: float_ops f32_eval)

lemma no_demand_started: "no_demand (- 10) (started setpoint threshold)"
  by (simp add: no_demand_def started_def initial_def PIDController_new_def f32_nonneg)

lemma scenario_from_start:
  "\<exists>s1 s2 s3.
     ON_iteration_at 60 (started 50 70) =
       Continue s1 [Pump 0, Fan 0, Console (Status 60 0 0),
                    CAN \<lparr>CANID = 0x18FF408F, msg = [0, 0, 0, 0, 0, 0, 0, 0]\<rparr>] \<and>
     ON_iteration_at 65 s1 =
       Continue s2 [Pump 0, Fan 0, Console (Status 65 0 0),
                    CAN \<lparr>CANID = 0x18FF408F, msg = [0, 0, 0, 0, 0, 0, 0, 0]\<rparr>] \<and>
     ON_iteration_at 75 s2 =
       Continue s3 [Pump 0, Fan 0, Console Overtemperature, Pump 0, Fan 0,
                    Console Entering_safety_shutdown,
                    CAN \<lparr>CANID = 0x18FF408F, msg = [0, 0, 0, 0, 0, 0, 0, 0]\<rparr>] \<and>
     currentState s3 = SAFETY_SHUTDOWN"
proof -
  let ?s = "started 50 70"
  have s: "speeds_in_range ?s" "levelSwitch ?s" "tempSetpoint ?s = 50" "safetyThreshold ?s = 70"
    by (simp_all add: started_def initial_def speeds_in_range_def)
  from ON_iteration_no_demand[of ?s 60] s no_demand_started[of 50 70]
  obtain s1 where 1:
    "ON_iteration_at 60 ?s =
       Continue s1 [Pump 0, Fan 0, Console (Status 60 0 0),
                    CAN \<lparr>CANID = 0x18FF408F, msg = [0, 0, 0, 0, 0, 0, 0, 0]\<rparr>]"
    "speeds_in_range s1" "levelSwitch s1" "tempSetpoint s1 = 50" "safetyThreshold s1 = 70"
    "\<forall>e \<le> - 10. no_demand e s1"
    by (auto simp: errors_60_65_75)
  from ON_iteration_no_demand[of s1 65] 1
  obtain s2 where 2:
    "ON_iteration_at 65 s1 =
       Continue s2 [Pump 0, Fan 0, Console (Status 65 0 0),
                    CAN \<lparr>CANID = 0x18FF408F, msg = [0, 0, 0, 0, 0, 0, 0, 0]\<rparr>]"
    "speeds_in_range s2" "levelSwitch s2" "tempSetpoint s2 = 50" "safetyThreshold s2 = 70"
    "\<forall>e \<le> - 15. no_demand e s2"
    by (auto simp: errors_60_65_75)
  from ON_iteration_no_demand[of s2 75] 2
  obtain s3 where 3:
    "ON_iteration_at 75 s2 =
       Continue s3 [Pump 0, Fan 0, Console Overtemperature, Pump 0, Fan 0,
                    Console Entering_safety_shutdown,
                    CAN \<lparr>CANID = 0x18FF408F, msg = [0, 0, 0, 0, 0, 0, 0, 0]\<rparr>]"
    "currentState s3 = SAFETY_SHUTDOWN"
    by (auto simp: errors_60_65_75)
  from 1(1) 2(1) 3 show ?thesis by blast
qed

lemma CANcontrol_100_50:
  "CANcontrol 100 50 = Some \<lparr>CANID = 0x18FF408F, msg = [0, 0, 255, 0, 0, 0, 127, 0]\<rparr>"
proof -
  have a: "fmul (fdiv 100 100) 255 = 255" by (simp add: float_ops f32_eval)
  have b: "fmul (fdiv 50 100) 255 = 255 / 2" by (simp add: float_ops f32_eval)
  have fa: "\<lfloor>fmul (fdiv 100 100) 255\<rfloor> = 255" unfolding a by simp
  have fb: "\<lfloor>fmul (fdiv 50 100) 255\<rfloor> = 127" unfolding b by simp
  show ?thesis by (subst CANcontrol_in_range) (simp_all only: fa fb, simp_all)
qed

section \<open>The operating state machine\<close>

text \<open>
  Claim C1: an iteration in state \<open>ON\<close>.  With insufficient coolant level both actuators
  are commanded to zero and the state becomes \<open>SAFETY_SHUTDOWN\<close>, the regulators and the
  stored speeds untouched.  Otherwise both regulators run, their limited outputs are
  applied, and only then the temperature is compared with the safety threshold: above
  it, both actuators are commanded to zero and \<open>SAFETY_SHUTDOWN\<close> is entered.  With
  setpoint 50, threshold 70 and level switch true, measured temperatures 60, 65, 75 give
  two iterations that stay in \<open>ON\<close> and a third that ends with the commands \<open>(0, 0)\<close> in
  \<open>SAFETY_SHUTDOWN\<close>, whatever the state of the regulators.
\<close>

theorem ON_iteration_faults:
  assumes "currentState s = ON" "speeds_in_range s"
  shows
    "(\<not> levelSwitch s \<longrightarrow>
        (\<exists>s' fr. loop_iteration r s =
                   Continue s' [Console Low_coolant_level, Pump 0, Fan 0,
                                Console Entering_safety_shutdown, CAN fr] \<and>
           s' = (acquire r s)\<lparr>currentState := SAFETY_SHUTDOWN\<rparr> \<and>
           pumpPID s' = pumpPID s \<and> fanPID s' = fanPID s \<and>
           pumpSpeed s' = pumpSpeed s \<and> fanSpeed s' = fanSpeed s)) \<and>
     (levelSwitch s \<longrightarrow>
        (\<exists>s' fr.
           pumpPID s' = snd (compute (pumpPID s) (tempSetpoint s) (measuredTemperature (acquire r s))) \<and>
           fanPID s' = snd (compute (fanPID s) (tempSetpoint s) (measuredTemperature (acquire r s))) \<and>
           pumpSpeed s' =
             limit_speed (fst (compute (pumpPID s) (tempSetpoint s) (measuredTemperature (acquire r s)))) \<and>
           fanSpeed s' =
             limit_speed (fst (compute (fanPID s) (tempSetpoint s) (measuredTemperature (acquire r s)))) \<and>
           (if safetyThreshold s < measuredTemperature (acquire r s) then
              loop_iteration r s =
                Continue s' [Pump (pumpSpeed s'), Fan (fanSpeed s'), Console Overtemperature,
                             Pump 0, Fan 0, Console Entering_safety_shutdown, CAN fr] \<and>
              currentState s' = SAFETY_SHUTDOWN
            else
              loop_iteration r s =
                Continue s' [Pump (pumpSpeed s'), Fan (fanSpeed s'),
                             Console (Status (measuredTemperature (acquire r s))
                                        (pumpSpeed s') (fanSpeed s')), CAN fr] \<and>
              currentState s' = ON))) \<and>
     (levelSwitch s \<and> tempSetpoint s = 50 \<and> safetyThreshold s = 70 \<longrightarrow>
        (\<exists>s1 out1 s2 out2 s3 p f fr.
           ON_iteration_at 60 s = Continue s1 out1 \<and> currentState s1 = ON \<and>
           ON_iteration_at 65 s1 = Continue s2 out2 \<and> currentState s2 = ON \<and>
           ON_iteration_at 75 s2 =
             Continue s3 [Pump p, Fan f, Console Overtemperature, Pump 0, Fan 0,
                          Console Entering_safety_shutdown, CAN fr] \<and>
           currentState s3 = SAFETY_SHUTDOWN))"
    (is "(_ \<longrightarrow> ?low) \<and> (_ \<longrightarrow> ?regulated) \<and> (_ \<longrightarrow> ?scenario)")
proof (intro conjI impI)
  assume "\<not> levelSwitch s"
  with ON_iteration_low[of "acquire r s"] assms show ?low
    by (auto simp: loop_iteration_def acquire_speeds acquire_fields)
next
  assume lv: "levelSwitch s"
  show ?regulated
  proof (cases "safetyThreshold s < measuredTemperature (acquire r s)")
    case True
    with ON_iteration_ok[of "acquire r s"] assms lv show ?thesis
      by (simp add: loop_iteration_def acquire_speeds acquire_fields) blast
  next
    case False
    with ON_iteration_ok[of "acquire r s"] assms lv show ?thesis
      by (simp add: loop_iteration_def acquire_speeds acquire_fields) blast
  qed
next
  assume "levelSwitch s \<and> tempSetpoint s = 50 \<and> safetyThreshold s = 70"
  with scenario_60_65_75[of s] assms show ?scenario by simp
qed

theorem ON_iteration_faults_witness:
  "currentState (started 50 70) = ON \<and> speeds_in_range (started 50 70) \<and>
   levelSwitch (started 50 70) \<and> tempSetpoint (started 50 70) = 50 \<and>
   safetyThreshold (started 50 70) = 70 \<and>
   (\<exists>s1 out1 s2 out2 s3 p f fr.
      ON_iteration_at 60 (started 50 70) = Continue s1 out1 \<and> currentState s1 = ON \<and>
      ON_iteration_at 65 s1 = Continue s2 out2 \<and> currentState s2 = ON \<and>
      ON_iteration_at 75 s2 =
        Continue s3 [Pump p, Fan f, Console Overtemperature, Pump 0, Fan 0,
                     Console Entering_safety_shutdown, CAN fr] \<and>
      currentState s3 = SAFETY_SHUTDOWN) \<and>
   (\<exists>s1 s2 s3.
      ON_iteration_at 60 (started 50 70) =
        Continue s1 [Pump 0, Fan 0, Console (Status 60 0 0),
                     CAN \<lparr>CANID = 0x18FF408F, msg = [0, 0, 0, 0, 0, 0, 0, 0]\<rparr>] \<and>
      ON_iteration_at 65 s1 =
        Continue s2 [Pump 0, Fan 0, Console (Status 65 0 0),
                     CAN \<lparr>CANID = 0x18FF408F, msg = [0, 0, 0, 0, 0, 0, 0, 0]\<rparr>] \<and>
      ON_iteration_at 75 s2 =
        Continue s3 [Pump 0, Fan 0, Console Overtemperature, Pump 0, Fan 0,
                     Console Entering_safety_shutdown,
                     CAN \<lparr>CANID = 0x18FF408F, msg = [0, 0, 0, 0, 0, 0, 0, 0]\<rparr>] \<and>
      currentState s3 = SAFETY_SHUTDOWN) \<and>
   \<not> levelSwitch ((started 50 70)\<lparr>levelSwitch := False\<rparr>) \<and>
   (\<exists>s'. loop_iteration 0 ((started 50 70)\<lparr>levelSwitch := False\<rparr>) =
           Continue s' [Console Low_coolant_level, Pump 0, Fan 0,
                        Console Entering_safety_shutdown,
                        CAN \<lparr>CANID = 0x18FF408F, msg = [0, 0, 0, 0, 0, 0, 0, 0]\<rparr>] \<and>
         currentState s' = SAFETY_SHUTDOWN \<and>
         pumpPID s' = pumpPID (started 50 70) \<and> fanPID s' = fanPID (started 50 70))"
proof -
  let ?low = "(started 50 70)\<lparr>levelSwitch := False\<rparr>"
  have a: "currentState (started 50 70) = ON" "speeds_in_range (started 50 70)"
    "levelSwitch (started 50 70)" "tempSetpoint (started 50 70) = 50"
    "safetyThreshold (started 50 70) = 70"
    by (simp_all add: started_def initial_def speeds_in_range_def)
  have b: "currentState ?low = ON" "speeds_in_range ?low" "\<not> levelSwitch ?low"
    "pumpPID ?low = pumpPID (started 50 70)" "fanPID ?low = fanPID (started 50 70)"
    "pumpSpeed ?low = 0" "fanSpeed ?low = 0"
    by (simp_all add: started_def initial_def speeds_in_range_def)
  from ON_iteration_faults[OF b(1,2), of 0] b(3)
  obtain s' fr where low:
    "loop_iteration 0 ?low =
       Continue s' [Console Low_coolant_level, Pump 0, Fan 0,
                    Console Entering_safety_shutdown, CAN fr]"
    "s' = (acquire 0 ?low)\<lparr>currentState := SAFETY_SHUTDOWN\<rparr>"
    "pumpPID s' = pumpPID ?low" "fanPID s' = fanPID ?low"
    by blast
  from low(1,2) b(1,6,7) have "CANcontrol 0 0 = Some fr"
    by (simp add: loop_iteration_def end_of_iteration_def regulate_low acquire_fields
        split: option.splits)
  then have fr: "fr = \<lparr>CANID = 0x18FF408F, msg = [0, 0, 0, 0, 0, 0, 0, 0]\<rparr>"
    unfolding CANcontrol_0_0 by simp
  have "\<exists>s'. loop_iteration 0 ?low =
           Continue s' [Console Low_coolant_level, Pump 0, Fan 0,
                        Console Entering_safety_shutdown,
                        CAN \<lparr>CANID = 0x18FF408F, msg = [0, 0, 0, 0, 0, 0, 0, 0]\<rparr>] \<and>
         currentState s' = SAFETY_SHUTDOWN \<and>
         pumpPID s' = pumpPID (started 50 70) \<and> fanPID s' = fanPID (started 50 70)"
    using low b(4,5) unfolding fr by (intro exI[of _ s']) simp
  with ON_iteration_faults[OF a(1,2), of 0] scenario_from_start a b(3)
  show ?thesis by simp
qed

text \<open>
  Claim C2: \<open>SAFETY_SHUTDOWN\<close> is terminal.  An iteration that begins in \<open>SAFETY_SHUTDOWN\<close>
  prints the shutdown message and \<^verbatim>\<open>main\<close> returns 0: there is no successor state, hence no
  transition back to \<open>ON\<close> or \<open>OFF\<close>, and no regulator, actuator or CAN output.  This holds
  for every run that has reached the state and for all later inputs; \<^verbatim>\<open>safetyShutdown\<close> sets
  the state to \<open>SAFETY_SHUTDOWN\<close> whatever it was.
\<close>

theorem SAFETY_SHUTDOWN_terminal:
  assumes "currentState s = SAFETY_SHUTDOWN"
  shows "loop_iteration r s = Return 0 [Console In_safety_shutdown] \<and>
         run (r # rs) s = Return 0 [Console In_safety_shutdown] \<and>
         filter is_actuation (events (run (r # rs) s)) = [] \<and>
         filter is_CAN (events (run (r # rs) s)) = [] \<and>
         (\<forall>s0 rs0 out. run rs0 s0 = Continue s out \<longrightarrow>
            run (rs0 @ r # rs) s0 = Return 0 (out @ [Console In_safety_shutdown])) \<and>
         fst (safetyShutdown st) = SAFETY_SHUTDOWN"
  using assms
  by (auto simp: loop_iteration_shutdown run_append prepend_def safetyShutdown_def)

theorem SAFETY_SHUTDOWN_terminal_witness:
  "currentState ((started 50 70)\<lparr>currentState := SAFETY_SHUTDOWN\<rparr>) = SAFETY_SHUTDOWN \<and>
   loop_iteration 0 ((started 50 70)\<lparr>currentState := SAFETY_SHUTDOWN\<rparr>) =
     Return 0 [Console In_safety_shutdown] \<and>
   run [0, 1, 2] ((started 50 70)\<lparr>currentState := SAFETY_SHUTDOWN\<rparr>) =
     Return 0 [Console In_safety_shutdown]"
  using SAFETY_SHUTDOWN_terminal[of "(started 50 70)\<lparr>currentState := SAFETY_SHUTDOWN\<rparr>" 0 "[1, 2]"]
  by simp

lemma nan_lift_NaN: "nan_lift f NaN b = NaN" "nan_lift f a NaN = NaN"
  by (simp_all add: nan_lift_def split: float_value.splits)

lemma compute_nan_numbers:
  "compute_nan (numbers c) (Number setpoint) (Number measured) =
     (Number (fst (compute c setpoint measured)), numbers (snd (compute c setpoint measured)))"
  by (simp add: compute_nan_def compute_def numbers_def nan_lift_def Let_def)

lemma compute_nan_setpoint: "fst (compute_nan c NaN measured) = NaN"
  by (simp add: compute_nan_def Let_def nan_lift_NaN)

lemma limit_speed_nan_cases:
  "limit_speed_nan NaN = NaN" "limit_speed_nan (Number x) = Number (limit_speed x)"
  by (simp_all add: limit_speed_nan_def limit_speed_def nan_less_def Let_def)

lemma CANcontrol_nan_cases:
  "CANcontrol_nan NaN f = None" "CANcontrol_nan p NaN = None"
  "CANcontrol_nan (Number x) (Number y) = CANcontrol x y"
  by (simp_all add: CANcontrol_nan_def CANcontrol_def uchar_of_float_nan_def nan_lift_def
      split: float_value.splits option.splits)

lemma limit_speed_exact:
  "limit_speed x = (if x < 0 then 0 else if 100 < x then 100 else x)"
  by (simp add: limit_speed_def Let_def)

lemma stof_nan: "stof_returns_NaN ''nan''" "stof_returns_NaN ''NaN''" "\<not> stof_returns_NaN ''50''"
  by (simp_all add: stof_returns_NaN_def isspace_def starts_with_one_of_def Let_def)

lemma regulate_applied:
  "take 2 (snd (regulate (s\<lparr>levelSwitch := True\<rparr>))) =
     [Pump (limit_speed (fst (compute (pumpPID s) (tempSetpoint s) (measuredTemperature s)))),
      Fan (limit_speed (fst (compute (fanPID s) (tempSetpoint s) (measuredTemperature s))))]"
  by (simp add: regulate_ok Let_def)

text \<open>
  Claim C5: every speed handed to an actuator or to the CAN encoder lies in \<open>[0, 100]\<close>.
  For numbers the two limiting statements see to that: they give exactly 0 below 0,
  exactly 100 above 100 and the output itself in between; the first pump and fan
  commands of a regulating iteration are the limited regulator outputs; and every run
  from the initial state, for any setpoint and threshold that are numbers, hands only
  speeds in \<open>[0, 100]\<close> to the actuators and reaches no undefined conversion.  But
  \<^verbatim>\<open>std::stof\<close> converts the argument \<^verbatim>\<open>nan\<close> to NaN, and with a NaN setpoint both regulator
  outputs are NaN whatever the regulators and the measurement: both comparisons are
  false, so NaN is passed to \<^verbatim>\<open>controlPump\<close> and \<^verbatim>\<open>controlFan\<close>, stays in the two variables
  and is passed to \<^verbatim>\<open>CANcontrol\<close>, whose conversion to \<^verbatim>\<open>unsigned char\<close> is then undefined.
\<close>

theorem NaN_not_limited:
  "stof_returns_NaN ''nan'' \<and>
   applied_speeds_nan pump fan NaN measured = (NaN, NaN) \<and>
   limit_speed_nan NaN = NaN \<and>
   CANcontrol_nan NaN NaN = None \<and>
   limit_speed_nan (Number x) = Number (limit_speed x) \<and>
   compute_nan (numbers c) (Number setpoint) (Number t) =
     (Number (fst (compute c setpoint t)), numbers (snd (compute c setpoint t))) \<and>
   CANcontrol_nan (Number p) (Number f) = CANcontrol p f \<and>
   limit_speed x = (if x < 0 then 0 else if 100 < x then 100 else x) \<and>
   0 \<le> limit_speed x \<and> limit_speed x \<le> 100 \<and>
   take 2 (snd (regulate (s\<lparr>levelSwitch := True\<rparr>))) =
     [Pump (limit_speed (fst (compute (pumpPID s) (tempSetpoint s) (measuredTemperature s)))),
      Fan (limit_speed (fst (compute (fanPID s) (tempSetpoint s) (measuredTemperature s))))] \<and>
   list_all speed_in_range (events (run rs (initial setpoint threshold))) \<and>
   (\<forall>out. run rs (initial setpoint threshold) \<noteq> Undefined_behaviour out)"
proof -
  have 1: "limit_speed x = (if x < 0 then 0 else if 100 < x then 100 else x)"
    by (rule limit_speed_exact)
  have 2: "applied_speeds_nan pump fan NaN measured = (NaN, NaN)"
    by (simp add: applied_speeds_nan_def compute_nan_setpoint limit_speed_nan_cases)
  have 3: "list_all speed_in_range (events (run rs (initial setpoint threshold)))"
    "\<forall>out. run rs (initial setpoint threshold) \<noteq> Undefined_behaviour out"
    using run_in_range[OF speeds_in_range_initial] by blast+
  have 4: "CANcontrol_nan NaN NaN = None"
    by (rule CANcontrol_nan_cases(1))
  from 1 2 3 4 stof_nan(1) limit_speed_nan_cases(1) limit_speed_nan_cases(2)[of x]
    CANcontrol_nan_cases(3)[of p f] compute_nan_numbers[of c setpoint t]
    limit_speed_range[of x] regulate_applied[of s]
  show ?thesis by blast
qed


section \<open>The CAN message\<close>

text \<open>
  Claim C6, as stated: the data bytes are \<open>round (speed / 100 * 255)\<close>, so that speeds
  \<open>(50, 0)\<close> give 128 at offset 2.  The conversion to \<^verbatim>\<open>unsigned char\<close> discards the
  fraction instead: \<open>50 / 100 * 255 = 127.5\<close> is encoded as 127, whereas rounding gives 128.
\<close>

theorem CANcontrol_50_0_truncated:
  "CANcontrol 50 0 = Some \<lparr>CANID = 0x18FF408F, msg = [0, 0, 127, 0, 0, 0, 0, 0]\<rparr> \<and>
   round (50 / 100 * 255 :: real) = 128 \<and> (127 :: 8 word) \<noteq> 128"
  by (simp add: CANcontrol_50_0 round_def)

text \<open>
  Claim C6, amended: for speeds in \<open>[0, 100]\<close> the message has identifier \<open>0x18FF408F\<close>
  and eight data bytes; offset 2 is the \<^verbatim>\<open>float\<close> product \<open>pumpSpeed / 100 * 255\<close> with its
  fraction discarded, offset 6 likewise for the fan speed, both between 0 and 255, and
  the other six bytes are 0.  Speeds \<open>(50, 0)\<close> give 127 at offset 2.
\<close>

theorem CANcontrol_encoding:
  assumes "0 \<le> p" "p \<le> 100" "0 \<le> f" "f \<le> 100"
  shows "CANcontrol p f =
           Some \<lparr>CANID = 0x18FF408F,
                 msg = [0, 0, word_of_int \<lfloor>fmul (fdiv p 100) 255\<rfloor>, 0, 0, 0,
                        word_of_int \<lfloor>fmul (fdiv f 100) 255\<rfloor>, 0]\<rparr> \<and>
         0 \<le> \<lfloor>fmul (fdiv p 100) 255\<rfloor> \<and> \<lfloor>fmul (fdiv p 100) 255\<rfloor> \<le> 255 \<and>
         0 \<le> \<lfloor>fmul (fdiv f 100) 255\<rfloor> \<and> \<lfloor>fmul (fdiv f 100) 255\<rfloor> \<le> 255"
  using CANcontrol_in_range[OF assms] CAN_byte_range[OF assms(1,2)] CAN_byte_range[OF assms(3,4)]
  by (simp add: floor_le_iff le_floor_iff)

theorem CANcontrol_encoding_witness:
  "(0 :: real) \<le> 50 \<and> (50 :: real) \<le> 100 \<and> (0 :: real) \<le> 0 \<and> (0 :: real) \<le> 100 \<and>
   CANcontrol 50 0 =
     Some \<lparr>CANID = 0x18FF408F,
           msg = [0, 0, word_of_int \<lfloor>fmul (fdiv 50 100) 255\<rfloor>, 0, 0, 0,
                  word_of_int \<lfloor>fmul (fdiv 0 100) 255\<rfloor>, 0]\<rparr> \<and>
   \<lfloor>fmul (fdiv 50 100) 255\<rfloor> = 127"
proof -
  have a: "fmul (fdiv 50 100) 255 = 255 / 2" by (simp add: float_ops f32_eval)
  have b: "\<lfloor>fmul (fdiv 50 100) 255\<rfloor> = 127" unfolding a by simp
  from CANcontrol_encoding[of 50 0] b show ?thesis by simp
qed

text \<open>
  Claim C7, as stated: a status frame is emitted in every iteration in every state,
  \<open>SAFETY_SHUTDOWN\<close> included.  In the run with setpoint 50, threshold 70 and \<^verbatim>\<open>rand()\<close>
  returning 0, the first iteration switches on, the second measures 100 degrees and
  latches the shutdown, and the third returns from \<^verbatim>\<open>main\<close>: three iterations, two frames,
  and the last output is the shutdown message.
\<close>

theorem no_frame_after_shutdown:
  "\<exists>out. run [0, 0, 0] (initial 50 70) = Return 0 out \<and> length (filter is_CAN out) = 2 \<and>
         last out = Console In_safety_shutdown"
  by (rule three_iterations)

text \<open>
  Claim C7, amended: an iteration that begins in \<open>OFF\<close> or \<open>ON\<close> emits exactly one
  frame, as its last output, encoding the stored speeds; this includes the iteration in
  which the shutdown latches.  An iteration that begins in \<open>SAFETY_SHUTDOWN\<close> emits no
  frame: \<^verbatim>\<open>main\<close> prints the shutdown message and returns.
\<close>

theorem frame_per_iteration:
  assumes "speeds_in_range s"
  shows "length (filter is_CAN (events (loop_iteration r s))) =
           (if currentState s = SAFETY_SHUTDOWN then 0 else 1) \<and>
         (currentState s \<noteq> SAFETY_SHUTDOWN \<longrightarrow>
            (\<exists>s' out fr. loop_iteration r s = Continue s' (out @ [CAN fr]) \<and>
               filter is_CAN out = [] \<and>
               CANcontrol (pumpSpeed s') (fanSpeed s') = Some fr)) \<and>
         (currentState s = SAFETY_SHUTDOWN \<longrightarrow>
            loop_iteration r s = Return 0 [Console In_safety_shutdown])"
proof (cases "currentState s = SAFETY_SHUTDOWN")
  case True
  then show ?thesis by (simp add: loop_iteration_shutdown)
next
  case False
  from loop_iteration_in_range[OF assms False, of r] False show ?thesis by auto
qed

theorem frame_per_iteration_witness:
  "speeds_in_range (initial 50 70) \<and>
   length (filter is_CAN (events (loop_iteration 0 (initial 50 70)))) = 1 \<and>
   speeds_in_range ((started 50 70)\<lparr>currentState := SAFETY_SHUTDOWN\<rparr>) \<and>
   length (filter is_CAN
     (events (loop_iteration 0 ((started 50 70)\<lparr>currentState := SAFETY_SHUTDOWN\<rparr>)))) = 0"
proof -
  have a: "speeds_in_range (initial 50 70)"
    "speeds_in_range ((started 50 70)\<lparr>currentState := SAFETY_SHUTDOWN\<rparr>)"
    by (simp_all add: started_def initial_def speeds_in_range_def)
  have b: "currentState (initial 50 70) = OFF" by (simp add: initial_def)
  from frame_per_iteration[OF a(1), of 0] frame_per_iteration[OF a(2), of 0] a b
  show ?thesis by simp
qed

text \<open>
  Claim C9: in the iteration in which a fault latches \<open>SAFETY_SHUTDOWN\<close> the actuators are
  commanded to zero, but the stored speeds are not changed by the shutdown path, and the
  frame at the end of the iteration encodes them: with a coolant-level fault the speeds
  stored before the iteration (the limited commands of the previous regulation), with an
  overtemperature fault the limited regulator outputs of this iteration.  With setpoint
  50 and threshold 30 a reading of 40 degrees latches the shutdown with the frame bytes
  16 and 13 after the commands \<open>(0, 0)\<close>; with stored speeds \<open>(100, 50)\<close> a level fault gives
  the frame bytes 255 and 127.
\<close>

theorem fault_iteration_frame:
  assumes "currentState s = ON" "speeds_in_range s"
  shows
    "(\<not> levelSwitch s \<longrightarrow>
        (\<exists>s' fr. loop_iteration r s =
                   Continue s' [Console Low_coolant_level, Pump 0, Fan 0,
                                Console Entering_safety_shutdown, CAN fr] \<and>
           currentState s' = SAFETY_SHUTDOWN \<and>
           pumpSpeed s' = pumpSpeed s \<and> fanSpeed s' = fanSpeed s \<and>
           CANcontrol (pumpSpeed s) (fanSpeed s) = Some fr)) \<and>
     (levelSwitch s \<and> safetyThreshold s < measuredTemperature (acquire r s) \<longrightarrow>
        (\<exists>s' fr p f.
           p = limit_speed (fst (compute (pumpPID s) (tempSetpoint s)
                                   (measuredTemperature (acquire r s)))) \<and>
           f = limit_speed (fst (compute (fanPID s) (tempSetpoint s)
                                   (measuredTemperature (acquire r s)))) \<and>
           loop_iteration r s =
             Continue s' [Pump p, Fan f, Console Overtemperature, Pump 0, Fan 0,
                          Console Entering_safety_shutdown, CAN fr] \<and>
           currentState s' = SAFETY_SHUTDOWN \<and>
           pumpSpeed s' = p \<and> fanSpeed s' = f \<and> CANcontrol p f = Some fr))"
proof (intro conjI impI)
  assume "\<not> levelSwitch s"
  with ON_iteration_low[of "acquire r s"] assms
  show "\<exists>s' fr. loop_iteration r s =
                   Continue s' [Console Low_coolant_level, Pump 0, Fan 0,
                                Console Entering_safety_shutdown, CAN fr] \<and>
           currentState s' = SAFETY_SHUTDOWN \<and>
           pumpSpeed s' = pumpSpeed s \<and> fanSpeed s' = fanSpeed s \<and>
           CANcontrol (pumpSpeed s) (fanSpeed s) = Some fr"
    by (auto simp: loop_iteration_def acquire_speeds acquire_fields)
next
  assume "levelSwitch s \<and> safetyThreshold s < measuredTemperature (acquire r s)"
  with ON_iteration_ok[of "acquire r s"] assms
  show "\<exists>s' fr p f.
           p = limit_speed (fst (compute (pumpPID s) (tempSetpoint s)
                                   (measuredTemperature (acquire r s)))) \<and>
           f = limit_speed (fst (compute (fanPID s) (tempSetpoint s)
                                   (measuredTemperature (acquire r s)))) \<and>
           loop_iteration r s =
             Continue s' [Pump p, Fan f, Console Overtemperature, Pump 0, Fan 0,
                          Console Entering_safety_shutdown, CAN fr] \<and>
           currentState s' = SAFETY_SHUTDOWN \<and>
           pumpSpeed s' = p \<and> fanSpeed s' = f \<and> CANcontrol p f = Some fr"
    by (simp add: loop_iteration_def acquire_speeds acquire_fields) metis
qed

theorem fault_iteration_frame_witness:
  "currentState (started 50 30) = ON \<and> speeds_in_range (started 50 30) \<and>
   levelSwitch (started 50 30) \<and>
   safetyThreshold (started 50 30) < measuredTemperature (acquire 2 (started 50 30)) \<and>
   (\<exists>s'. loop_iteration 2 (started 50 30) =
           Continue s' [Pump (13 / 2), Fan (5557453 / 2 ^ 20), Console Overtemperature,
                        Pump 0, Fan 0, Console Entering_safety_shutdown,
                        CAN \<lparr>CANID = 0x18FF408F, msg = [0, 0, 16, 0, 0, 0, 13, 0]\<rparr>] \<and>
         currentState s' = SAFETY_SHUTDOWN) \<and>
   \<not> levelSwitch ((started 50 70)\<lparr>levelSwitch := False, pumpSpeed := 100, fanSpeed := 50\<rparr>) \<and>
   (\<exists>s'. loop_iteration 0
            ((started 50 70)\<lparr>levelSwitch := False, pumpSpeed := 100, fanSpeed := 50\<rparr>) =
           Continue s' [Console Low_coolant_level, Pump 0, Fan 0,
                        Console Entering_safety_shutdown,
                        CAN \<lparr>CANID = 0x18FF408F, msg = [0, 0, 255, 0, 0, 0, 127, 0]\<rparr>] \<and>
         currentState s' = SAFETY_SHUTDOWN \<and> pumpSpeed s' = 100 \<and> fanSpeed s' = 50)"
proof -
  let ?s = "started 50 30"
  let ?l = "(started 50 70)\<lparr>levelSwitch := False, pumpSpeed := 100, fanSpeed := 50\<rparr>"
  have a: "currentState ?s = ON" "speeds_in_range ?s" "levelSwitch ?s"
    by (simp_all add: started_def initial_def speeds_in_range_def)
  have m: "measuredTemperature (acquire 2 ?s) = 40" by (simp add: measured_emulated)
  have t: "safetyThreshold ?s < measuredTemperature (acquire 2 ?s)"
    unfolding m by (simp add: started_def initial_def)
  have c: "pumpPID ?s = PIDController_new (f32 0.5) (f32 0.1) (f32 0.05)"
    "fanPID ?s = PIDController_new (f32 0.4) (f32 0.1) (f32 0.03)" "tempSetpoint ?s = 50"
    by (simp_all add: started_def initial_def)
  have p: "limit_speed (fst (compute (pumpPID ?s) (tempSetpoint ?s)
             (measuredTemperature (acquire 2 ?s)))) = 13 / 2"
    unfolding m c compute_pump_50_40 by (simp add: limit_speed_def)
  have f: "limit_speed (fst (compute (fanPID ?s) (tempSetpoint ?s)
             (measuredTemperature (acquire 2 ?s)))) = 5557453 / 2 ^ 20"
    unfolding m c compute_fan_50_40 by (simp add: limit_speed_def)
  from fault_iteration_frame[OF a(1,2), of 2] a(3) t
  obtain s' fr where it:
    "loop_iteration 2 ?s =
       Continue s' [Pump (13 / 2), Fan (5557453 / 2 ^ 20), Console Overtemperature,
                    Pump 0, Fan 0, Console Entering_safety_shutdown, CAN fr]"
    "currentState s' = SAFETY_SHUTDOWN"
    and fr: "CANcontrol (13 / 2) (5557453 / 2 ^ 20) = Some fr"
    unfolding p f by blast
  from fr have "fr = \<lparr>CANID = 0x18FF408F, msg = [0, 0, 16, 0, 0, 0, 13, 0]\<rparr>"
    unfolding CANcontrol_overtemperature by simp
  with it have over:
    "\<exists>s'. loop_iteration 2 ?s =
           Continue s' [Pump (13 / 2), Fan (5557453 / 2 ^ 20), Console Overtemperature,
                        Pump 0, Fan 0, Console Entering_safety_shutdown,
                        CAN \<lparr>CANID = 0x18FF408F, msg = [0, 0, 16, 0, 0, 0, 13, 0]\<rparr>] \<and>
         currentState s' = SAFETY_SHUTDOWN"
    by simp
  have b: "currentState ?l = ON" "speeds_in_range ?l" "\<not> levelSwitch ?l"
    "pumpSpeed ?l = 100" "fanSpeed ?l = 50"
    by (simp_all add: started_def initial_def speeds_in_range_def)
  from fault_iteration_frame[OF b(1,2), of 0] b(3)
  obtain s2 fr2 where it2:
    "loop_iteration 0 ?l =
       Continue s2 [Console Low_coolant_level, Pump 0, Fan 0,
                    Console Entering_safety_shutdown, CAN fr2]"
    "currentState s2 = SAFETY_SHUTDOWN" "pumpSpeed s2 = pumpSpeed ?l" "fanSpeed s2 = fanSpeed ?l"
    and fr2: "CANcontrol (pumpSpeed ?l) (fanSpeed ?l) = Some fr2"
    by blast
  from fr2 have "fr2 = \<lparr>CANID = 0x18FF408F, msg = [0, 0, 255, 0, 0, 0, 127, 0]\<rparr>"
    unfolding b(4,5) CANcontrol_100_50 by simp
  with it2 b(4,5) have low:
    "\<exists>s'. loop_iteration 0 ?l =
           Continue s' [Console Low_coolant_level, Pump 0, Fan 0,
                        Console Entering_safety_shutdown,
                        CAN \<lparr>CANID = 0x18FF408F, msg = [0, 0, 255, 0, 0, 0, 127, 0]\<rparr>] \<and>
         currentState s' = SAFETY_SHUTDOWN \<and> pumpSpeed s' = 100 \<and> fanSpeed s' = 50"
    by simp
  from over low a t b(3) show ?thesis by simp
qed


section \<open>Startup\<close>

lemma stof_50abc: "stof ''50abc'' = Converted 50"
proof -
  have v: "f32 50 = 50" by (simp add: f32_eval)
  show ?thesis
    by (simp add: stof_def isspace_def isdigit_def starts_with_one_of_def digits_value_def
        FLT_MAX_def v Let_def)
qed

lemma stof_abc: "stof ''abc'' = Invalid_argument"
  by (simp add: stof_def isspace_def isdigit_def starts_with_one_of_def digits_value_def Let_def)

text \<open>
  Claim C10: every malformed setpoint or threshold argument makes startup fail with a
  reported error before the loop is entered.  An argument without a numeric prefix such
  as \<^verbatim>\<open>abc\<close> is rejected that way, but \<^verbatim>\<open>std::stof\<close> converts the longest numeric prefix and
  \<^verbatim>\<open>main\<close> does not look at the rest: the argument \<^verbatim>\<open>50abc\<close> is accepted as setpoint 50 and
  the loop runs.
\<close>

theorem malformed_setpoint_accepted:
  "parse_arguments [''CoolingLoopControl'', ''50abc''] = Configured 50 70 \<and>
   main [''CoolingLoopControl'', ''50abc''] [r] =
     Some (Continue (started 50 70)
             [Console Initializing, Console System_ON,
              CAN \<lparr>CANID = 0x18FF408F, msg = [0, 0, 0, 0, 0, 0, 0, 0]\<rparr>]) \<and>
   main [''CoolingLoopControl'', ''abc''] [r] = Some (Return 1 [Console Error_parsing_arguments])"
  by (simp add: main_def parse_arguments_def stof_50abc stof_abc first_iteration prepend_def)

end
